theory Spec2Isabelle
  imports Main "HOL-Library.Word"
begin

section \<open>Values, expressions and errors\<close>

text \<open>
  The standard library of the expression engine (package \<open>expressionstcl\<close>) works on
  \<open>StaticValue\<close>s and returns \<open>Expression\<close>s. Go's \<open>int64\<close> is a 64-bit word read
  as a signed number (\<open>sint\<close>); a \<open>float64\<close> is kept as its 64-bit pattern, and every
  operation on it is a parameter of the model. A Go string is a sequence of bytes, as
  \<open>string\<close> is here.
\<close>

type_synonym int64 = "64 word"
type_synonym float64 = "64 word"

datatype Type = TypeUnknown | TypeString | TypeInt64 | TypeFloat64 | TypeBool | TypeNone

text \<open>
  Modelled from the spec: the payload of a \<open>StaticValue\<close> (the type itself is declared
  outside the standard library's file). Exactly one kind holds at a time: none, a
  string, a 64-bit integer, a 64-bit float, a boolean, a sequence of values, or a
  mapping from string keys to values (kept as an association list, the first binding of
  a key being the one that counts). A static value and its payload (\<open>Value()\<close>) are the
  same thing in this model.
\<close>

datatype val =
    VNone
  | VString string
  | VInt int64
  | VFloat float64
  | VBool bool
  | VSlice "val list"
  | VMap "(string \<times> val) list"

text \<open>
  Modelled from the spec: the expression tree. A static value is itself an expression
  (\<open>Literal\<close>); \<open>newCall\<close> builds a \<open>Call\<close> node.
\<close>

datatype Expression =
    Literal val
  | VariableRef string
  | Accessor Expression Expression
  | Call string "Expression list"

text \<open>
  An error made by \<open>fmt.Errorf\<close> is kept as its format string with its arguments, not
  rendered; \<open>errors.Wrap\<close> keeps the wrapped error and the message. The other
  constructors are for the errors of the code outside this file.
\<close>

datatype fmtarg =
    ANat nat
  | AInt int64
  | AStr string
  | AVal val
  | AExpr Expression
  | AErr error
  | ANil
and error =
    Errorf string "fmtarg list"
  | Wrap error string
  | ParseError string
  | TypeError string val
  | LibError string

text \<open>A call either returns or panics (a nil dereference, a slice out of range).\<close>

datatype 'a outcome = Return 'a | Panic

text \<open>Go's \<open>(Expression, error)\<close>: either component may be nil.\<close>

type_synonym hres = "Expression option \<times> error option"

type_synonym machine = "string \<Rightarrow> val option"

type_synonym gojqQuery = string

section \<open>The code outside the standard library's file\<close>

text \<open>
  The conversions of values of another kind, the parser, the printer and the resolver of
  expressions, and the libraries (\<open>strings\<close>, \<open>encoding/json\<close>, \<open>yaml\<close>, \<open>shellquote\<close>,
  \<open>math\<close>, \<open>gojq\<close>) are not part of the file: they are the fields of an \<open>engine\<close>, and
  the theorems hold for every engine. \<open>query.RunWithContext(ctx, v)\<close> takes the timeout
  of \<open>ctx\<close> in nanoseconds; its iterator is the list of what it emits, a value or an
  error, and the deadline of the context shows as an emitted error.
\<close>

record engine =
  textOf :: "val \<Rightarrow> string \<times> error option"
  intOf :: "val \<Rightarrow> int64 \<times> error option"
  boolOf :: "val \<Rightarrow> bool \<times> error option"
  floatOf :: "val \<Rightarrow> float64 \<times> error option"
  exprType :: "Expression \<Rightarrow> Type"
  exprString :: "Expression \<Rightarrow> string"
  Compile :: "string \<Rightarrow> error + Expression"
  Resolve :: "Expression \<Rightarrow> machine \<Rightarrow> error + Expression"
  stringsSplit :: "string \<Rightarrow> string \<Rightarrow> string list"
  stringsTrimSpace :: "string \<Rightarrow> string"
  jsonMarshal :: "val \<Rightarrow> error + string"
  jsonUnmarshal :: "string \<Rightarrow> error + val"
  yamlMarshal :: "val \<Rightarrow> error + string"
  yamlUnmarshal :: "string \<Rightarrow> error + val"
  shellquoteJoin :: "string list \<Rightarrow> string"
  shellquoteSplit :: "string \<Rightarrow> string list \<times> error option"
  floorInt64 :: "float64 \<Rightarrow> int64"
  ceilInt64 :: "float64 \<Rightarrow> int64"
  roundInt64 :: "float64 \<Rightarrow> int64"
  gojqParse :: "string \<Rightarrow> error + gojqQuery"
  gojqRunWithContext :: "nat \<Rightarrow> gojqQuery \<Rightarrow> val \<Rightarrow> (error + val) list"

subsection \<open>Static values\<close>

text \<open>
  Modelled from the spec: the kind predicates never fail and follow the one kind a value
  has; \<open>SliceValue\<close> and \<open>MapValue\<close> fail on every other kind.
\<close>

definition IsNone :: "val \<Rightarrow> bool" where
  "IsNone v = (case v of VNone \<Rightarrow> True | _ \<Rightarrow> False)"

definition IsSlice :: "val \<Rightarrow> bool" where
  "IsSlice v = (case v of VSlice xs \<Rightarrow> True | _ \<Rightarrow> False)"

definition IsString :: "val \<Rightarrow> bool" where
  "IsString v = (case v of VString s \<Rightarrow> True | _ \<Rightarrow> False)"

definition IsMap :: "val \<Rightarrow> bool" where
  "IsMap v = (case v of VMap kvs \<Rightarrow> True | _ \<Rightarrow> False)"

definition SliceValue :: "val \<Rightarrow> val list \<times> error option" where
  "SliceValue v = (case v of VSlice xs \<Rightarrow> (xs, None) | _ \<Rightarrow> ([], Some (TypeError ''slice'' v)))"

definition MapValue :: "val \<Rightarrow> (string \<times> val) list \<times> error option" where
  "MapValue v = (case v of VMap kvs \<Rightarrow> (kvs, None) | _ \<Rightarrow> ([], Some (TypeError ''map'' v)))"

text \<open>
  Modelled from the spec: a conversion to the kind a value already has returns the value
  and no error; the conversion of a value of another kind is the engine's.
\<close>

definition toString :: "engine \<Rightarrow> val \<Rightarrow> string \<times> error option" where
  "toString E v = (case v of VString s \<Rightarrow> (s, None) | _ \<Rightarrow> textOf E v)"

definition StringValue :: "engine \<Rightarrow> val \<Rightarrow> string \<times> error option" where
  "StringValue E v = toString E v"

definition IntValue :: "engine \<Rightarrow> val \<Rightarrow> int64 \<times> error option" where
  "IntValue E v = (case v of VInt k \<Rightarrow> (k, None) | _ \<Rightarrow> intOf E v)"

definition BoolValue :: "engine \<Rightarrow> val \<Rightarrow> bool \<times> error option" where
  "BoolValue E v = (case v of VBool b \<Rightarrow> (b, None) | _ \<Rightarrow> boolOf E v)"

definition FloatValue :: "engine \<Rightarrow> val \<Rightarrow> float64 \<times> error option" where
  "FloatValue E v = (case v of VFloat f \<Rightarrow> (f, None) | _ \<Rightarrow> floatOf E v)"

definition NewValue :: "val \<Rightarrow> Expression" where
  "NewValue v = Literal v"

text \<open>Modelled from the spec: the static string value of a payload's textual form.\<close>

definition NewStringValue :: "engine \<Rightarrow> val \<Rightarrow> Expression" where
  "NewStringValue E v = NewValue (VString (fst (toString E v)))"

text \<open>The package's \<open>None\<close>.\<close>

definition NoneValue :: Expression where
  "NoneValue = Literal VNone"

text \<open>
  Modelled from the spec: \<open>Static()\<close> is the underlying value of a fully reduced node,
  and nil for every other node.
\<close>

definition Static :: "Expression \<Rightarrow> val option" where
  "Static e = (case e of Literal v \<Rightarrow> Some v | _ \<Rightarrow> None)"

definition newCall :: "string \<Rightarrow> Expression list \<Rightarrow> Expression" where
  "newCall name args = Call name args"

subsection \<open>Go's built-ins on this model\<close>

text \<open>\<open>int64(len(v))\<close>, and \<open>len\<close> and the lookup of a Go map.\<close>

definition int64_of_len :: "nat \<Rightarrow> int64" where
  "int64_of_len n = word_of_nat n"

definition mapLen :: "(string \<times> val) list \<Rightarrow> nat" where
  "mapLen kvs = length (remdups (map fst kvs))"

definition mapGet :: "(string \<times> val) list \<Rightarrow> string \<Rightarrow> val option" where
  "mapGet kvs k = map_of kvs k"

text \<open>\<open>strings.Join\<close>.\<close>

fun strings_Join :: "string list \<Rightarrow> string \<Rightarrow> string" where
  "strings_Join [] sep = []"
| "strings_Join [x] sep = x"
| "strings_Join (x # y # ys) sep = x @ sep @ strings_Join (y # ys) sep"

text \<open>\<open>NewMachine()\<close> and \<open>Register\<close>; the machine of one iteration of \<open>map\<close> and
  \<open>filter\<close>, built anew for each element.\<close>

definition NewMachine :: machine where
  "NewMachine = (\<lambda>name. None)"

definition Register :: "machine \<Rightarrow> string \<Rightarrow> val \<Rightarrow> machine" where
  "Register m name v = m(name \<mapsto> v)"

definition iterMachine :: "val \<Rightarrow> nat \<Rightarrow> machine" where
  "iterMachine x i =
     Register (Register (Register NewMachine ''_.value'' x) ''_.index'' (VInt (word_of_nat i)))
       ''_.key'' (VInt (word_of_nat i))"

definition ofCompile :: "error + Expression \<Rightarrow> hres" where
  "ofCompile r = (case r of Inl err \<Rightarrow> (None, Some err) | Inr e \<Rightarrow> (Some e, None))"

section \<open>The standard functions\<close>

text \<open>
  Each entry of \<open>stdFunctions\<close> is a handler over the static arguments \<open>value\<close>.
  The handlers follow the source line by line; \<open>value ! i\<close> is read only after the
  check of \<open>length value\<close>, as in the source.
\<close>

record StdFunction =
  ReturnType :: Type
  Handler :: "val list \<Rightarrow> hres outcome"

definition std_string :: "engine \<Rightarrow> val list \<Rightarrow> hres outcome" where
  \<open>std_string E value =
     Return (Some (NewValue (VString (foldl (\<lambda>str v. str @ fst (StringValue E v)) [] value))), None)\<close>

definition std_list :: "val list \<Rightarrow> hres outcome" where
  \<open>std_list value = Return (Some (NewValue (VSlice value)), None)\<close>

definition std_join :: "engine \<Rightarrow> val list \<Rightarrow> hres outcome" where
  \<open>std_join E value =
     (if length value = 0 \<or> length value > 2 then
        Return (None, Some (Errorf ''"join" function expects 1-2 arguments, %d provided'' [ANat (length value)]))
      else if IsNone (value ! 0) then Return (Some (Literal (value ! 0)), None)
      else if \<not> IsSlice (value ! 0) then
        Return (None, Some (Errorf ''"join" function expects a slice as 1st argument: %v provided'' [AVal (value ! 0)]))
      else
        (case SliceValue (value ! 0) of
           (slc, Some err) \<Rightarrow>
             Return (None, Some (Errorf ''"join" function error: reading slice: %s'' [AErr err]))
         | (slc, None) \<Rightarrow>
             (let v = map (\<lambda>x. fst (toString E x)) slc;
                  separator = (if length value = 2 then fst (StringValue E (value ! 1)) else '','')
              in Return (Some (NewValue (VString (strings_Join v separator))), None))))\<close>

definition std_split :: "engine \<Rightarrow> val list \<Rightarrow> hres outcome" where
  \<open>std_split E value =
     (if length value = 0 \<or> length value > 2 then
        Return (None, Some (Errorf ''"split" function expects 1-2 arguments, %d provided'' [ANat (length value)]))
      else
        (let str = fst (StringValue E (value ! 0));
             separator = (if length value = 2 then fst (StringValue E (value ! 1)) else '','')
         in Return (Some (NewValue (VSlice (map VString (stringsSplit E str separator)))), None)))\<close>

definition std_int :: "engine \<Rightarrow> val list \<Rightarrow> hres outcome" where
  \<open>std_int E value =
     (if length value \<noteq> 1 then
        Return (None, Some (Errorf ''"int" function expects 1 argument, %d provided'' [ANat (length value)]))
      else
        (case IntValue E (value ! 0) of
           (v, Some err) \<Rightarrow> Return (None, Some err)
         | (v, None) \<Rightarrow> Return (Some (NewValue (VInt v)), None)))\<close>

definition std_bool :: "engine \<Rightarrow> val list \<Rightarrow> hres outcome" where
  \<open>std_bool E value =
     (if length value \<noteq> 1 then
        Return (None, Some (Errorf ''"bool" function expects 1 argument, %d provided'' [ANat (length value)]))
      else
        (case BoolValue E (value ! 0) of
           (v, Some err) \<Rightarrow> Return (None, Some err)
         | (v, None) \<Rightarrow> Return (Some (NewValue (VBool v)), None)))\<close>

definition std_float :: "engine \<Rightarrow> val list \<Rightarrow> hres outcome" where
  \<open>std_float E value =
     (if length value \<noteq> 1 then
        Return (None, Some (Errorf ''"float" function expects 1 argument, %d provided'' [ANat (length value)]))
      else
        (case FloatValue E (value ! 0) of
           (v, Some err) \<Rightarrow> Return (None, Some err)
         | (v, None) \<Rightarrow> Return (Some (NewValue (VFloat v)), None)))\<close>

definition std_tojson :: "engine \<Rightarrow> val list \<Rightarrow> hres outcome" where
  \<open>std_tojson E value =
     (if length value \<noteq> 1 then
        Return (None, Some (Errorf ''"tojson" function expects 1 argument, %d provided'' [ANat (length value)]))
      else
        (case jsonMarshal E (value ! 0) of
           Inl err \<Rightarrow> Return (None, Some (Errorf ''"tojson" function had problem marshalling: %s'' [AErr err]))
         | Inr b \<Rightarrow> Return (Some (NewValue (VString b)), None)))\<close>

definition std_json :: "engine \<Rightarrow> val list \<Rightarrow> hres outcome" where
  \<open>std_json E value =
     (if length value \<noteq> 1 then
        Return (None, Some (Errorf ''"json" function expects 1 argument, %d provided'' [ANat (length value)]))
      else if \<not> IsString (value ! 0) then
        Return (None, Some (Errorf ''"json" function argument should be a string'' []))
      else
        (case value ! 0 of
           VString s \<Rightarrow>
             (case jsonUnmarshal E s of
                Inl err \<Rightarrow> Return (None, Some (Errorf ''"json" function had problem unmarshalling: %s'' [AErr err]))
              | Inr v \<Rightarrow> Return (Some (NewValue v), None))
         | _ \<Rightarrow> Panic))\<close>

definition std_toyaml :: "engine \<Rightarrow> val list \<Rightarrow> hres outcome" where
  \<open>std_toyaml E value =
     (if length value \<noteq> 1 then
        Return (None, Some (Errorf ''"toyaml" function expects 1 argument, %d provided'' [ANat (length value)]))
      else
        (case yamlMarshal E (value ! 0) of
           Inl err \<Rightarrow> Return (None, Some (Errorf ''"toyaml" function had problem marshalling: %s'' [AErr err]))
         | Inr b \<Rightarrow> Return (Some (NewValue (VString b)), None)))\<close>

definition std_yaml :: "engine \<Rightarrow> val list \<Rightarrow> hres outcome" where
  \<open>std_yaml E value =
     (if length value \<noteq> 1 then
        Return (None, Some (Errorf ''"yaml" function expects 1 argument, %d provided'' [ANat (length value)]))
      else if \<not> IsString (value ! 0) then
        Return (None, Some (Errorf ''"yaml" function argument should be a string'' []))
      else
        (case value ! 0 of
           VString s \<Rightarrow>
             (case yamlUnmarshal E s of
                Inl err \<Rightarrow> Return (None, Some (Errorf ''"yaml" function had problem unmarshalling: %s'' [AErr err]))
              | Inr v \<Rightarrow> Return (Some (NewValue v), None))
         | _ \<Rightarrow> Panic))\<close>

definition std_shellquote :: "engine \<Rightarrow> val list \<Rightarrow> hres outcome" where
  \<open>std_shellquote E value =
     (let args = map (\<lambda>v. fst (StringValue E v)) value
      in Return (Some (NewValue (VString (shellquoteJoin E args))), None))\<close>

definition std_shellargs :: "engine \<Rightarrow> val list \<Rightarrow> hres outcome" where
  \<open>std_shellargs E value =
     (if length value \<noteq> 1 then
        Return (None, Some (Errorf ''"shellargs" function expects 1 arguments, %d provided'' [ANat (length value)]))
      else
        (let v = fst (StringValue E (value ! 0)); (words, err) = shellquoteSplit E v
         in Return (Some (NewValue (VSlice (map VString words))), err)))\<close>

definition std_trim :: "engine \<Rightarrow> val list \<Rightarrow> hres outcome" where
  \<open>std_trim E value =
     (if length value \<noteq> 1 then
        Return (None, Some (Errorf ''"trim" function expects 1 argument, %d provided'' [ANat (length value)]))
      else if \<not> IsString (value ! 0) then
        Return (None, Some (Errorf ''"trim" function argument should be a string'' []))
      else
        (let str = fst (StringValue E (value ! 0))
         in Return (Some (NewValue (VString (stringsTrimSpace E str))), None)))\<close>

definition std_len :: "engine \<Rightarrow> val list \<Rightarrow> hres outcome" where
  \<open>std_len E value =
     (if length value \<noteq> 1 then
        Return (None, Some (Errorf ''"len" function expects 1 argument, %d provided'' [ANat (length value)]))
      else if IsSlice (value ! 0) then
        (let (v, err) = SliceValue (value ! 0)
         in Return (Some (NewValue (VInt (int64_of_len (length v)))), err))
      else if IsString (value ! 0) then
        (let (v, err) = StringValue E (value ! 0)
         in Return (Some (NewValue (VInt (int64_of_len (length v)))), err))
      else if IsMap (value ! 0) then
        (let (v, err) = MapValue (value ! 0)
         in Return (Some (NewValue (VInt (int64_of_len (mapLen v)))), err))
      else
        Return (None, Some (Errorf ''"len" function expects string, slice or map, %v provided'' [AVal (value ! 0)])))\<close>

definition std_floor :: "engine \<Rightarrow> val list \<Rightarrow> hres outcome" where
  \<open>std_floor E value =
     (if length value \<noteq> 1 then
        Return (None, Some (Errorf ''"floor" function expects 1 argument, %d provided'' [ANat (length value)]))
      else
        (case FloatValue E (value ! 0) of
           (f, Some err) \<Rightarrow>
             Return (None, Some (Errorf ''"floor" function expects a number, %s provided: %v'' [AVal (value ! 0), AErr err]))
         | (f, None) \<Rightarrow> Return (Some (NewValue (VInt (floorInt64 E f))), None)))\<close>

definition std_ceil :: "engine \<Rightarrow> val list \<Rightarrow> hres outcome" where
  \<open>std_ceil E value =
     (if length value \<noteq> 1 then
        Return (None, Some (Errorf ''"ceil" function expects 1 argument, %d provided'' [ANat (length value)]))
      else
        (case FloatValue E (value ! 0) of
           (f, Some err) \<Rightarrow>
             Return (None, Some (Errorf ''"ceil" function expects a number, %s provided: %v'' [AVal (value ! 0), AErr err]))
         | (f, None) \<Rightarrow> Return (Some (NewValue (VInt (ceilInt64 E f))), None)))\<close>

definition std_round :: "engine \<Rightarrow> val list \<Rightarrow> hres outcome" where
  \<open>std_round E value =
     (if length value \<noteq> 1 then
        Return (None, Some (Errorf ''"round" function expects 1 argument, %d provided'' [ANat (length value)]))
      else
        (case FloatValue E (value ! 0) of
           (f, Some err) \<Rightarrow>
             Return (None, Some (Errorf ''"round" function expects a number, %s provided: %v'' [AVal (value ! 0), AErr err]))
         | (f, None) \<Rightarrow> Return (Some (NewValue (VInt (roundInt64 E f))), None)))\<close>

text \<open>
  The loop of \<open>chunk\<close>: \<open>for i := int64(0); i < l; i += size\<close>, on 64-bit integers that
  wrap around. \<open>list[i:end]\<close> panics unless \<open>0 \<le> i \<le> end \<le> len(list)\<close>. The handler
  enters the loop only with \<open>size > 0\<close>; the test is repeated in the loop's condition,
  where it changes nothing for the handler and makes the function total.
\<close>

function chunk_loop :: "val list \<Rightarrow> int64 \<Rightarrow> int64 \<Rightarrow> int64 \<Rightarrow> val list list \<Rightarrow> val list list outcome" where
  "chunk_loop list l sz i chunks =
     (if 0 < sint sz \<and> sint i < sint l then
        (let end0 = i + sz;
             end1 = (if sint end0 > sint l then l else end0)
         in if 0 \<le> sint i \<and> sint i \<le> sint end1 \<and> sint end1 \<le> int (length list)
            then chunk_loop list l sz (i + sz)
                   (chunks @ [take (nat (sint end1) - nat (sint i)) (drop (nat (sint i)) list)])
            else Panic)
      else Return chunks)"
  by pat_completeness auto
termination
proof (relation "measure (\<lambda>(list, l, sz, i, chunks). nat (sint l - sint i))", goal_cases)
  case 1
  show ?case by simp
next
  case (2 list l sz i chunks end0 end1)
  have range: "sint i < 2 ^ 63" "sint sz < 2 ^ 63"
    using sint_lt [of i] sint_lt [of sz] by simp_all
  have sum: "sint (i + sz) = signed_take_bit 63 (sint i + sint sz)"
    by (simp add: sint_word_ariths)
  have "sint i < sint (i + sz)"
  proof (cases "sint i + sint sz < 2 ^ 63")
    case True
    with 2 have "signed_take_bit 63 (sint i + sint sz) = sint i + sint sz"
      by (intro signed_take_bit_int_eq_self) simp_all
    with sum 2 show ?thesis by simp
  next
    case False
    define M :: int where "M = 2 ^ 64"
    define x where "x = sint i + sint sz + 2 ^ 63"
    have x: "M \<le> x" "x < 2 * M"
      using False range by (simp_all add: M_def x_def)
    have "x mod M = (x - M) mod M"
      by simp
    also have "\<dots> = x - M"
      using x by (intro mod_pos_pos_trivial) simp_all
    finally have "take_bit 64 x = x - M"
      by (simp add: take_bit_eq_mod M_def)
    then have wrapped: "sint (i + sz) = sint i + sint sz - 2 ^ 64"
      using sum by (simp add: signed_take_bit_eq_take_bit_shift x_def M_def)
    with range 2 have "sint (i + sz) < 0" "\<not> sint l < sint (i + sz)"
      by simp_all
    with 2 show ?thesis
      by simp
  qed
  with 2 show ?case by simp
qed

definition std_chunk :: "engine \<Rightarrow> val list \<Rightarrow> hres outcome" where
  \<open>std_chunk E value =
     (if length value \<noteq> 2 then
        Return (None, Some (Errorf ''"chunk" function expects 2 arguments, %d provided'' [ANat (length value)]))
      else
        (case SliceValue (value ! 0) of
           (list, Some err) \<Rightarrow>
             Return (None, Some (Errorf ''"chunk" function expects 1st argument to be a list, %s provided: %v''
               [AVal (value ! 0), AErr err]))
         | (list, None) \<Rightarrow>
             (case IntValue E (value ! 1) of
                (sz, Some err) \<Rightarrow>
                  Return (None, Some (Errorf ''"chunk" function expects 2nd argument to be integer, %s provided: %v''
                    [AVal (value ! 1), AErr err]))
              | (sz, None) \<Rightarrow>
                  if sint sz \<le> 0 then
                    Return (None, Some (Errorf ''"chunk" function expects 2nd argument to be >= 1, %s provided: %v''
                      [AVal (value ! 1), ANil]))
                  else
                    (case chunk_loop list (int64_of_len (length list)) sz 0 [] of
                       Panic \<Rightarrow> Panic
                     | Return chunks \<Rightarrow> Return (Some (NewValue (VSlice (map VSlice chunks))), None)))))\<close>

text \<open>\<open>NewValue(v[int(k)])\<close> on a string is the byte at \<open>k\<close>, a number.\<close>

definition std_at :: "engine \<Rightarrow> val list \<Rightarrow> hres outcome" where
  \<open>std_at E value =
     (if length value \<noteq> 2 then
        Return (None, Some (Errorf ''"at" function expects 2 arguments, %d provided'' [ANat (length value)]))
      else if IsSlice (value ! 0) then
        (let v = fst (SliceValue (value ! 0)); (k, err) = IntValue E (value ! 1)
         in if err \<noteq> None then
              Return (None, Some (Errorf ''"at" function expects 2nd argument to be number for list, %s provided''
                [AVal (value ! 1)]))
            else if 0 \<le> sint k \<and> sint k < sint (int64_of_len (length v)) then
              Return (Some (NewValue (v ! nat (sint k))), None)
            else
              Return (None, Some (Errorf ''"at" function: error: out of bounds (length=%d, index=%d)''
                [ANat (length v), AInt k])))
      else if IsMap (value ! 0) then
        (let v = fst (MapValue (value ! 0)); k = fst (StringValue E (value ! 1))
         in case mapGet v k of
              Some item \<Rightarrow> Return (Some (NewValue item), None)
            | None \<Rightarrow> Return (Some NoneValue, None))
      else if IsString (value ! 0) then
        (let v = fst (StringValue E (value ! 0)); (k, err) = IntValue E (value ! 1)
         in if err \<noteq> None then
              Return (None, Some (Errorf ''"at" function expects 2nd argument to be number for string, %s provided''
                [AVal (value ! 1)]))
            else if 0 \<le> sint k \<and> sint k < sint (int64_of_len (length v)) then
              Return (Some (NewValue (VInt (word_of_nat (of_char (v ! nat (sint k)))))), None)
            else
              Return (None, Some (Errorf ''"at" function: error: out of bounds (length=%d, index=%d)''
                [ANat (length v), AInt k])))
      else
        Return (None, Some (Errorf ''"at" function can be performed only on lists, maps and strings: %s provided''
          [AVal (value ! 0)])))\<close>

text \<open>
  The loops of \<open>map\<close> and \<open>filter\<close> over \<open>list[i]\<close>, \<open>i\<close> counting up from 0: the rest of
  the list, the index and what has been collected. \<open>ex, _ := Compile(expr.String())\<close>
  drops the error, so \<open>ex.Resolve\<close> on a nil \<open>ex\<close> panics.
\<close>

fun map_loop :: "engine \<Rightarrow> Expression \<Rightarrow> val list \<Rightarrow> nat \<Rightarrow> string list \<Rightarrow> (error + string list) outcome" where
  \<open>map_loop E expr [] i result = Return (Inr result)\<close>
| \<open>map_loop E expr (x # xs) i result =
     (case Compile E (exprString E expr) of
        Inl _ \<Rightarrow> Panic
      | Inr ex \<Rightarrow>
          (case Resolve E ex (iterMachine x i) of
             Inl err \<Rightarrow>
               Return (Inl (Errorf ''"map" function: error while mapping %d index (%v): %v'' [ANat i, AVal x, AErr err]))
           | Inr v \<Rightarrow> map_loop E expr xs (Suc i) (result @ [exprString E v])))\<close>

definition std_map :: "engine \<Rightarrow> val list \<Rightarrow> hres outcome" where
  \<open>std_map E value =
     (if length value \<noteq> 2 then
        Return (None, Some (Errorf ''"map" function expects 2 arguments, %d provided'' [ANat (length value)]))
      else
        (case SliceValue (value ! 0) of
           (list, Some err) \<Rightarrow>
             Return (None, Some (Errorf ''"map" function expects 1st argument to be a list, %s provided: %v''
               [AVal (value ! 0), AErr err]))
         | (list, None) \<Rightarrow>
             (let exprStr = fst (StringValue E (value ! 1))
              in case Compile E exprStr of
                   Inl err \<Rightarrow>
                     Return (None, Some (Errorf ''"map" function expects 2nd argument to be valid expression, '%s' provided: %v''
                       [AVal (value ! 1), AErr err]))
                 | Inr expr \<Rightarrow>
                     (case map_loop E expr list 0 [] of
                        Panic \<Rightarrow> Panic
                      | Return (Inl err) \<Rightarrow> Return (None, Some err)
                      | Return (Inr result) \<Rightarrow>
                          Return (ofCompile (Compile E (''list('' @ strings_Join result '','' @ '')'')))))))\<close>

fun filter_loop :: "engine \<Rightarrow> Expression \<Rightarrow> val list \<Rightarrow> nat \<Rightarrow> val list \<Rightarrow> (error + val list) outcome" where
  \<open>filter_loop E expr [] i result = Return (Inr result)\<close>
| \<open>filter_loop E expr (x # xs) i result =
     (case Compile E (exprString E expr) of
        Inl _ \<Rightarrow> Panic
      | Inr ex \<Rightarrow>
          (case Resolve E ex (iterMachine x i) of
             Inl err \<Rightarrow>
               Return (Inl (Errorf ''"filter" function: error while filtering %d index (%v): %v''
                 [ANat i, AVal x, AErr err]))
           | Inr v \<Rightarrow>
               (case Static v of
                  None \<Rightarrow>
                    Return (Inl (Errorf ''"filter" function: could not resolve filter for %d index (%v): %s''
                      [ANat i, AVal x, AExpr v]))
                | Some s \<Rightarrow>
                    (case BoolValue E s of
                       (b, Some err) \<Rightarrow>
                         Return (Inl (Errorf ''"filter" function: could not resolve filter for %d index (%v) as boolean: %s''
                           [ANat i, AVal x, AErr err]))
                     | (b, None) \<Rightarrow>
                         filter_loop E expr xs (Suc i) (if b then result @ [x] else result)))))\<close>

definition std_filter :: "engine \<Rightarrow> val list \<Rightarrow> hres outcome" where
  \<open>std_filter E value =
     (if length value \<noteq> 2 then
        Return (None, Some (Errorf ''"filter" function expects 2 arguments, %d provided'' [ANat (length value)]))
      else
        (case SliceValue (value ! 0) of
           (list, Some err) \<Rightarrow>
             Return (None, Some (Errorf ''"filter" function expects 1st argument to be a list, %s provided: %v''
               [AVal (value ! 0), AErr err]))
         | (list, None) \<Rightarrow>
             (let exprStr = fst (StringValue E (value ! 1))
              in case Compile E exprStr of
                   Inl err \<Rightarrow>
                     Return (None, Some (Errorf ''"filter" function expects 2nd argument to be valid expression, '%s' provided: %v''
                       [AVal (value ! 1), AErr err]))
                 | Inr expr \<Rightarrow>
                     (case filter_loop E expr list 0 [] of
                        Panic \<Rightarrow> Panic
                      | Return (Inl err) \<Rightarrow> Return (None, Some err)
                      | Return (Inr result) \<Rightarrow> Return (Some (NewValue (VSlice result)), None)))))\<close>

definition std_eval :: "engine \<Rightarrow> val list \<Rightarrow> hres outcome" where
  \<open>std_eval E value =
     (if length value \<noteq> 1 then
        Return (None, Some (Errorf ''"eval" function expects 1 argument, %d provided'' [ANat (length value)]))
      else
        (let exprStr = fst (StringValue E (value ! 0))
         in case Compile E exprStr of
              Inl err \<Rightarrow> Return (None, Some (Errorf ''"eval" function: %s: error: %v'' [AVal (value ! 0), AErr err]))
            | Inr expr \<Rightarrow> Return (Some expr, None)))\<close>

text \<open>\<open>time.Second\<close>, in nanoseconds.\<close>

definition Second :: nat where
  "Second = 1000000000"

text \<open>The loop of \<open>jq\<close> over what the iterator emits: the first error ends it.\<close>

fun jq_loop :: "(error + val) list \<Rightarrow> val list \<Rightarrow> error + val list" where
  "jq_loop [] result = Inr result"
| "jq_loop (Inl err # rest) result = Inl err"
| "jq_loop (Inr v # rest) result = jq_loop rest (result @ [v])"

definition std_jq :: "engine \<Rightarrow> val list \<Rightarrow> hres outcome" where
  \<open>std_jq E value =
     (if length value \<noteq> 2 then
        Return (None, Some (Errorf ''"jq" function expects 2 arguments, %d provided'' [ANat (length value)]))
      else
        (let queryStr = fst (StringValue E (value ! 1))
         in case gojqParse E queryStr of
              Inl err \<Rightarrow>
                Return (None, Some (Errorf ''"jq" error: could not parse the query: %s: %v'' [AStr queryStr, AErr err]))
            | Inr query \<Rightarrow>
                (case jsonMarshal E (value ! 0) of
                   Inl err \<Rightarrow>
                     Return (None, Some (Errorf ''"jq" error: could not marshal the value: %v: %v''
                       [AVal (value ! 0), AErr err]))
                 | Inr bytes \<Rightarrow>
                     (let v = (case jsonUnmarshal E bytes of Inl _ \<Rightarrow> VNone | Inr v \<Rightarrow> v);
                          timeout = 10 * Second
                      in case jq_loop (gojqRunWithContext E timeout query v) [] of
                           Inl err \<Rightarrow> Return (None, Some (Wrap err ''"jq" error: executing: %v''))
                         | Inr result \<Rightarrow> Return (Some (NewValue (VSlice result)), None)))))\<close>

subsection \<open>The table and the machine\<close>

text \<open>
  \<open>stdFunctions\<close> in the order of the source. An entry that names no \<open>ReturnType\<close> has
  the zero value of \<open>Type\<close>, \<open>TypeUnknown\<close>.
\<close>

definition stdFunctions :: "engine \<Rightarrow> (string \<times> StdFunction) list" where
  "stdFunctions E =
    [(''string'', \<lparr>ReturnType = TypeString, Handler = std_string E\<rparr>),
     (''list'', \<lparr>ReturnType = TypeUnknown, Handler = std_list\<rparr>),
     (''join'', \<lparr>ReturnType = TypeString, Handler = std_join E\<rparr>),
     (''split'', \<lparr>ReturnType = TypeUnknown, Handler = std_split E\<rparr>),
     (''int'', \<lparr>ReturnType = TypeInt64, Handler = std_int E\<rparr>),
     (''bool'', \<lparr>ReturnType = TypeBool, Handler = std_bool E\<rparr>),
     (''float'', \<lparr>ReturnType = TypeFloat64, Handler = std_float E\<rparr>),
     (''tojson'', \<lparr>ReturnType = TypeString, Handler = std_tojson E\<rparr>),
     (''json'', \<lparr>ReturnType = TypeUnknown, Handler = std_json E\<rparr>),
     (''toyaml'', \<lparr>ReturnType = TypeString, Handler = std_toyaml E\<rparr>),
     (''yaml'', \<lparr>ReturnType = TypeUnknown, Handler = std_yaml E\<rparr>),
     (''shellquote'', \<lparr>ReturnType = TypeString, Handler = std_shellquote E\<rparr>),
     (''shellargs'', \<lparr>ReturnType = TypeUnknown, Handler = std_shellargs E\<rparr>),
     (''trim'', \<lparr>ReturnType = TypeString, Handler = std_trim E\<rparr>),
     (''len'', \<lparr>ReturnType = TypeInt64, Handler = std_len E\<rparr>),
     (''floor'', \<lparr>ReturnType = TypeInt64, Handler = std_floor E\<rparr>),
     (''ceil'', \<lparr>ReturnType = TypeInt64, Handler = std_ceil E\<rparr>),
     (''round'', \<lparr>ReturnType = TypeInt64, Handler = std_round E\<rparr>),
     (''chunk'', \<lparr>ReturnType = TypeUnknown, Handler = std_chunk E\<rparr>),
     (''at'', \<lparr>ReturnType = TypeUnknown, Handler = std_at E\<rparr>),
     (''map'', \<lparr>ReturnType = TypeUnknown, Handler = std_map E\<rparr>),
     (''filter'', \<lparr>ReturnType = TypeUnknown, Handler = std_filter E\<rparr>),
     (''eval'', \<lparr>ReturnType = TypeUnknown, Handler = std_eval E\<rparr>),
     (''jq'', \<lparr>ReturnType = TypeUnknown, Handler = std_jq E\<rparr>)]"

definition stdFunction :: "engine \<Rightarrow> string \<Rightarrow> StdFunction option" where
  "stdFunction E name = map_of (stdFunctions E) name"

definition stringCastStdFn :: string where "stringCastStdFn = ''string''"
definition boolCastStdFn :: string where "boolCastStdFn = ''bool''"
definition intCastStdFn :: string where "intCastStdFn = ''int''"
definition floatCastStdFn :: string where "floatCastStdFn = ''float''"

definition CastToString :: "engine \<Rightarrow> Expression \<Rightarrow> Expression" where
  "CastToString E v =
     (case Static v of
        Some s \<Rightarrow> NewStringValue E s
      | None \<Rightarrow> if exprType E v = TypeString then v else newCall stringCastStdFn [v])"

definition CastToBool :: "engine \<Rightarrow> Expression \<Rightarrow> Expression" where
  "CastToBool E v = (if exprType E v = TypeBool then v else newCall boolCastStdFn [v])"

definition CastToInt :: "engine \<Rightarrow> Expression \<Rightarrow> Expression" where
  "CastToInt E v = (if exprType E v = TypeInt64 then v else newCall intCastStdFn [v])"

definition CastToFloat :: "engine \<Rightarrow> Expression \<Rightarrow> Expression" where
  "CastToFloat E v = (if exprType E v = TypeFloat64 then v else newCall intCastStdFn [v])"

definition IsStdFunction :: "engine \<Rightarrow> string \<Rightarrow> bool" where
  "IsStdFunction E name = (case stdFunction E name of Some fn \<Rightarrow> True | None \<Rightarrow> False)"

definition GetStdFunctionReturnType :: "engine \<Rightarrow> string \<Rightarrow> Type" where
  "GetStdFunctionReturnType E name =
     (case stdFunction E name of Some fn \<Rightarrow> ReturnType fn | None \<Rightarrow> TypeUnknown)"

text \<open>
  \<open>CallStdFunction\<close> takes any Go values: an expression (\<open>Inl\<close>; a static value is one)
  or another payload (\<open>Inr\<close>).
\<close>

fun callValues :: "(Expression + val) list \<Rightarrow> val list \<Rightarrow> error + val list" where
  \<open>callValues [] r = Inr r\<close>
| \<open>callValues (Inl (Literal v) # rest) r = callValues rest (r @ [v])\<close>
| \<open>callValues (Inl e # rest) r =
     Inl (Errorf ''expression functions can be called only with static values: %s provided'' [AExpr e])\<close>
| \<open>callValues (Inr x # rest) r = callValues rest (r @ [x])\<close>

definition CallStdFunction :: "engine \<Rightarrow> string \<Rightarrow> (Expression + val) list \<Rightarrow> hres outcome" where
  \<open>CallStdFunction E name value =
     (case stdFunction E name of
        None \<Rightarrow> Return (None, Some (Errorf ''function '%s' doesn't exists in standard library'' [AStr name]))
      | Some fn \<Rightarrow>
          (case callValues value [] of
             Inl err \<Rightarrow> Return (None, Some err)
           | Inr r \<Rightarrow> Handler fn r))\<close>

text \<open>The methods of \<open>stdMachine\<close>: \<open>(Expression, bool, error)\<close>.\<close>

definition stdMachine_Get :: "string \<Rightarrow> Expression option \<times> bool \<times> error option" where
  "stdMachine_Get name = (None, False, None)"

definition stdMachine_Call :: "engine \<Rightarrow> string \<Rightarrow> val list \<Rightarrow> (Expression option \<times> bool \<times> error option) outcome" where
  "stdMachine_Call E name args =
     (case stdFunction E name of
        Some fn \<Rightarrow>
          (case Handler fn args of
             Return (exp, err) \<Rightarrow> Return (exp, True, err)
           | Panic \<Rightarrow> Panic)
      | None \<Rightarrow> Return (None, False, None))"

section \<open>A small engine\<close>

text \<open>
  Modelled from the spec: one engine, for the examples of the spec and to show that what
  the theorems assume can be met. It covers a fragment of the expression language:
  integer literals in decimal, dotted variable paths, the product and the comparison
  \<open>>\<close> of two such atoms (operators are calls), and a call on atoms; spaces are
  skipped. An unknown variable stays as it is, a product or comparison of two static
  integers is computed, any other call is left unresolved. The conversions it has are
  the textual form of integers and booleans and the reading of the strings \<open>true\<close> and
  \<open>false\<close> as booleans; every other conversion fails, and the libraries are left out:
  a library call fails where it can and returns an empty result where it cannot.
\<close>

fun decNat :: "nat \<Rightarrow> string" where
  "decNat n = (if n < 10 then [char_of (48 + n)] else decNat (n div 10) @ [char_of (48 + n mod 10)])"

definition decInt64 :: "int64 \<Rightarrow> string" where
  "decInt64 k = (if sint k < 0 then CHR ''-'' # decNat (nat (- sint k)) else decNat (nat (sint k)))"

definition isDigit :: "char \<Rightarrow> bool" where
  "isDigit c = (48 \<le> (of_char c :: nat) \<and> (of_char c :: nat) \<le> 57)"

definition isNameChar :: "char \<Rightarrow> bool" where
  "isNameChar c = (let n = (of_char c :: nat) in
     (48 \<le> n \<and> n \<le> 57) \<or> (65 \<le> n \<and> n \<le> 90) \<or> (97 \<le> n \<and> n \<le> 122) \<or> c = CHR ''_'' \<or> c = CHR ''.'')"

definition readNat :: "string \<Rightarrow> nat" where
  "readNat t = foldl (\<lambda>a c. 10 * a + ((of_char c :: nat) - 48)) 0 t"

fun splitOn :: "char \<Rightarrow> string \<Rightarrow> string list" where
  "splitOn c [] = [[]]"
| "splitOn c (x # xs) =
     (if x = c then [] # splitOn c xs
      else (case splitOn c xs of [] \<Rightarrow> [[x]] | y # ys \<Rightarrow> (x # y) # ys))"

fun sequenceE :: "(error + 'a) list \<Rightarrow> error + 'a list" where
  "sequenceE [] = Inr []"
| "sequenceE (Inl e # rs) = Inl e"
| "sequenceE (Inr x # rs) = (case sequenceE rs of Inl e \<Rightarrow> Inl e | Inr xs \<Rightarrow> Inr (x # xs))"

definition parseAtom :: "string \<Rightarrow> error + Expression" where
  "parseAtom t =
     (if t \<noteq> [] \<and> list_all isDigit t then Inr (Literal (VInt (word_of_nat (readNat t))))
      else if t \<noteq> [] \<and> list_all isNameChar t \<and> \<not> isDigit (hd t) then Inr (VariableRef t)
      else Inl (ParseError t))"

definition parseBinary :: "char \<Rightarrow> string \<Rightarrow> error + Expression" where
  "parseBinary c t =
     (case (parseAtom (takeWhile (\<lambda>x. x \<noteq> c) t), parseAtom (drop 1 (dropWhile (\<lambda>x. x \<noteq> c) t))) of
        (Inr a, Inr b) \<Rightarrow> Inr (Call [c] [a, b])
      | _ \<Rightarrow> Inl (ParseError t))"

definition parseCall :: "string \<Rightarrow> error + Expression" where
  "parseCall t =
     (let name = takeWhile (\<lambda>x. x \<noteq> CHR ''('') t;
          inner = butlast (drop 1 (dropWhile (\<lambda>x. x \<noteq> CHR ''('') t))
      in if name = [] \<or> \<not> list_all isNameChar name then Inl (ParseError t)
         else (case sequenceE (if inner = [] then [] else map parseAtom (splitOn CHR '','' inner)) of
                 Inl e \<Rightarrow> Inl e
               | Inr args \<Rightarrow> Inr (Call name args)))"

definition compileRef :: "string \<Rightarrow> error + Expression" where
  "compileRef s =
     (let t = filter (\<lambda>c. c \<noteq> CHR '' '') s
      in if CHR ''*'' \<in> set t then parseBinary CHR ''*'' t
         else if CHR ''>'' \<in> set t then parseBinary CHR ''>'' t
         else if t \<noteq> [] \<and> last t = CHR '')'' \<and> CHR ''('' \<in> set t then parseCall t
         else parseAtom t)"

fun stringRef :: "Expression \<Rightarrow> string" where
  "stringRef (Literal v) =
     (case v of VInt k \<Rightarrow> decInt64 k | VBool b \<Rightarrow> (if b then ''true'' else ''false'') | VNone \<Rightarrow> ''null'' | _ \<Rightarrow> [])"
| "stringRef (VariableRef n) = n"
| "stringRef (Accessor b k) = []"
| "stringRef (Call f args) =
     (let ss = map stringRef args
      in if (f = ''*'' \<or> f = ''>'') \<and> length ss = 2 then ss ! 0 @ f @ ss ! 1
         else f @ ''('' @ strings_Join ss '','' @ '')'')"

definition applyOp :: "string \<Rightarrow> Expression list \<Rightarrow> error + Expression" where
  "applyOp f args =
     (case args of
        [Literal a, Literal b] \<Rightarrow>
          (if f = ''*'' then
             (case (a, b) of (VInt x, VInt y) \<Rightarrow> Inr (Literal (VInt (x * y))) | _ \<Rightarrow> Inl (TypeError f a))
           else if f = ''>'' then
             (case (a, b) of (VInt x, VInt y) \<Rightarrow> Inr (Literal (VBool (sint x > sint y))) | _ \<Rightarrow> Inl (TypeError f a))
           else Inr (Call f args))
      | _ \<Rightarrow> Inr (Call f args))"

fun resolveRef :: "Expression \<Rightarrow> machine \<Rightarrow> error + Expression" where
  "resolveRef (Literal v) m = Inr (Literal v)"
| "resolveRef (VariableRef n) m = (case m n of Some v \<Rightarrow> Inr (Literal v) | None \<Rightarrow> Inr (VariableRef n))"
| "resolveRef (Accessor b k) m = Inr (Accessor b k)"
| "resolveRef (Call f args) m =
     (case sequenceE (map (\<lambda>a. resolveRef a m) args) of
        Inl e \<Rightarrow> Inl e
      | Inr args' \<Rightarrow> applyOp f args')"

definition textRef :: "val \<Rightarrow> string \<times> error option" where
  "textRef v =
     (case v of
        VInt k \<Rightarrow> (decInt64 k, None)
      | VBool b \<Rightarrow> ((if b then ''true'' else ''false''), None)
      | _ \<Rightarrow> ([], Some (TypeError ''string'' v)))"

definition boolRef :: "val \<Rightarrow> bool \<times> error option" where
  "boolRef v =
     (case v of
        VString s \<Rightarrow>
          (if s = ''true'' then (True, None)
           else if s = ''false'' then (False, None)
           else (False, Some (TypeError ''bool'' v)))
      | _ \<Rightarrow> (False, Some (TypeError ''bool'' v)))"

definition typeRef :: "Expression \<Rightarrow> Type" where
  "typeRef e =
     (case e of
        Literal (VString s) \<Rightarrow> TypeString
      | Literal (VInt k) \<Rightarrow> TypeInt64
      | Literal (VFloat f) \<Rightarrow> TypeFloat64
      | Literal (VBool b) \<Rightarrow> TypeBool
      | _ \<Rightarrow> TypeUnknown)"

definition refEngine :: engine where
  "refEngine =
     \<lparr>textOf = textRef,
      intOf = (\<lambda>v. (0, Some (TypeError ''int'' v))),
      boolOf = boolRef,
      floatOf = (\<lambda>v. (0, Some (TypeError ''float'' v))),
      exprType = typeRef,
      exprString = stringRef,
      Compile = compileRef,
      Resolve = resolveRef,
      stringsSplit = (\<lambda>s sep. []),
      stringsTrimSpace = (\<lambda>s. []),
      jsonMarshal = (\<lambda>v. Inl (LibError ''json'')),
      jsonUnmarshal = (\<lambda>s. Inl (LibError ''json'')),
      yamlMarshal = (\<lambda>v. Inl (LibError ''yaml'')),
      yamlUnmarshal = (\<lambda>s. Inl (LibError ''yaml'')),
      shellquoteJoin = (\<lambda>args. []),
      shellquoteSplit = (\<lambda>s. ([], Some (LibError ''shellquote''))),
      floorInt64 = (\<lambda>f. 0),
      ceilInt64 = (\<lambda>f. 0),
      roundInt64 = (\<lambda>f. 0),
      gojqParse = (\<lambda>s. Inl (LibError ''gojq'')),
      gojqRunWithContext = (\<lambda>timeout q v. [])\<rparr>"

text \<open>
  The small engine with stand-ins for the JSON and the query libraries, to show that
  what the theorem on \<open>jq\<close> assumes can be met: an integer marshals to its decimal text
  and back, anything else fails to marshal; the queries \<open>.\<close>, \<open>error\<close> and \<open>., error\<close>
  parse and emit what jq emits for them (the input; an error; the input, then an
  error), and a context with no time left emits its deadline error at once.
\<close>

definition jqEngine :: engine where
  "jqEngine =
     refEngine
       \<lparr>jsonMarshal := (\<lambda>v. case v of VInt k \<Rightarrow> Inr (decInt64 k) | _ \<Rightarrow> Inl (LibError ''json'')),
        jsonUnmarshal := (\<lambda>s. if s \<noteq> [] \<and> list_all isDigit s then Inr (VInt (word_of_nat (readNat s)))
                              else Inl (LibError ''json'')),
        gojqParse := (\<lambda>s. if s = ''.'' \<or> s = ''error'' \<or> s = ''., error'' then Inr s
                           else Inl (LibError ''gojq'')),
        gojqRunWithContext := (\<lambda>timeout q v.
           if timeout = 0 then [Inl (LibError ''context deadline exceeded'')]
           else if q = ''.'' then [Inr v]
           else if q = ''., error'' then [Inr v, Inl (LibError ''gojq'')]
           else [Inl (LibError ''gojq'')])\<rparr>"

text \<open>
  The splitting that the claim on \<open>chunk\<close> describes: consecutive pieces of
  \<open>n\<close> elements, the last one with what is left.
\<close>

function chunksOf :: "nat \<Rightarrow> 'a list \<Rightarrow> 'a list list" where
  "chunksOf n xs = (if n = 0 \<or> xs = [] then [] else take n xs # chunksOf n (drop n xs))"
  by pat_completeness auto
termination
  by (relation "measure (\<lambda>(n, xs). length xs)") auto

section \<open>Properties of the standard library\<close>

text \<open>
  The equation of \<open>chunk_loop\<close> unfolds for ever as a rewrite rule: it is used one step
  at a time.
\<close>

declare chunk_loop.simps [simp del]

subsection \<open>The machine: \<open>Get\<close> and \<open>Call\<close>\<close>

lemma stdFunction_None: "name \<notin> fst ` set (stdFunctions E) \<Longrightarrow> stdFunction E name = None"
  by (simp add: stdFunction_def map_of_eq_None_iff)

lemma stdFunction_string: "stdFunction E ''string'' = Some \<lparr>ReturnType = TypeString, Handler = std_string E\<rparr>"
  by (simp add: stdFunction_def stdFunctions_def)

lemma stdFunction_list: "stdFunction E ''list'' = Some \<lparr>ReturnType = TypeUnknown, Handler = std_list\<rparr>"
  by (simp add: stdFunction_def stdFunctions_def)

lemma stdFunction_shellquote:
  "stdFunction E ''shellquote'' = Some \<lparr>ReturnType = TypeString, Handler = std_shellquote E\<rparr>"
  by (simp add: stdFunction_def stdFunctions_def)

lemma stdFunctions_keys:
  "map fst (stdFunctions E) =
     [''string'', ''list'', ''join'', ''split'', ''int'', ''bool'', ''float'', ''tojson'', ''json'', ''toyaml'',
      ''yaml'', ''shellquote'', ''shellargs'', ''trim'', ''len'', ''floor'', ''ceil'', ''round'', ''chunk'', ''at'',
      ''map'', ''filter'', ''eval'', ''jq'']"
  by (simp add: stdFunctions_def)

text \<open>
  Claim C10. The standard-library machine resolves no variable and fails on no unknown
  function name: \<open>Get\<close> returns \<open>(nil, false, nil)\<close> for every name, and \<open>Call\<close>
  returns \<open>(nil, false, nil)\<close> for every name that is not a key of \<open>stdFunctions\<close>,
  whatever the arguments. The keys are the 24 names of the table.
\<close>

theorem stdMachine_falls_through:
  "stdMachine_Get name = (None, False, None) \<and>
   (name \<notin> fst ` set (stdFunctions E) \<longrightarrow> stdMachine_Call E name args = Return (None, False, None)) \<and>
   map fst (stdFunctions E) =
     [''string'', ''list'', ''join'', ''split'', ''int'', ''bool'', ''float'', ''tojson'', ''json'', ''toyaml'',
      ''yaml'', ''shellquote'', ''shellargs'', ''trim'', ''len'', ''floor'', ''ceil'', ''round'', ''chunk'', ''at'',
      ''map'', ''filter'', ''eval'', ''jq'']"
  using stdFunctions_keys [of E]
  by (simp add: stdMachine_Get_def stdMachine_Call_def stdFunction_None)

theorem stdMachine_falls_through_witness:
  "''nope'' \<notin> fst ` set (stdFunctions refEngine) \<and>
   stdMachine_Get ''nope'' = (None, False, None) \<and>
   stdMachine_Call refEngine ''nope'' [VInt 1] = Return (None, False, None)"
proof -
  have h: "''nope'' \<notin> fst ` set (stdFunctions refEngine)"
    using stdFunctions_keys [of refEngine] by (simp flip: set_map)
  with stdMachine_falls_through [of "''nope''" refEngine "[VInt 1]"] show ?thesis
    by blast
qed

subsection \<open>\<open>string\<close>, \<open>list\<close> and \<open>shellquote\<close>\<close>

lemma foldl_append_concat: "foldl (\<lambda>str v. str @ f v) acc xs = acc @ concat (map f xs)"
  by (induction xs arbitrary: acc) simp_all

lemma std_string_eq:
  "std_string E args = Return (Some (Literal (VString (concat (map (\<lambda>v. fst (StringValue E v)) args)))), None)"
  by (simp add: std_string_def NewValue_def foldl_append_concat)

lemma std_shellquote_eq:
  "std_shellquote E args =
     Return (Some (Literal (VString (shellquoteJoin E (map (\<lambda>v. fst (StringValue E v)) args)))), None)"
  by (simp add: std_shellquote_def NewValue_def)

text \<open>
  Claim C8. For every list of arguments, of any length and of any kinds, the functions
  \<open>string\<close>, \<open>list\<close> and \<open>shellquote\<close> of the table return a value and no error:
  \<open>string\<close> the concatenation of the textual forms of the arguments, \<open>list\<close> the
  sequence of the arguments, \<open>shellquote\<close> what \<open>shellquote.Join\<close> makes of their
  textual forms. The textual form is what \<open>StringValue\<close> returns, its error dropped.
\<close>

theorem string_list_shellquote_never_fail:
  "stdMachine_Call E ''string'' args =
     Return (Some (Literal (VString (concat (map (\<lambda>v. fst (StringValue E v)) args)))), True, None) \<and>
   stdMachine_Call E ''list'' args = Return (Some (Literal (VSlice args)), True, None) \<and>
   stdMachine_Call E ''shellquote'' args =
     Return (Some (Literal (VString (shellquoteJoin E (map (\<lambda>v. fst (StringValue E v)) args)))), True, None)"
  by (simp add: stdMachine_Call_def stdFunction_string stdFunction_list stdFunction_shellquote
      std_string_eq std_shellquote_eq std_list_def NewValue_def)

theorem string_list_shellquote_never_fail_witness:
  "stdMachine_Call refEngine ''string'' [VString ''ab'', VInt 12, VBool True] =
     Return (Some (Literal (VString ''ab12true'')), True, None) \<and>
   stdMachine_Call refEngine ''list'' [VString ''ab'', VInt 12] =
     Return (Some (Literal (VSlice [VString ''ab'', VInt 12])), True, None) \<and>
   stdMachine_Call refEngine ''shellquote'' [] =
     Return (Some (Literal (VString (shellquoteJoin refEngine []))), True, None)"
proof -
  have t: "fst (StringValue refEngine (VString ''ab'')) = ''ab''"
    "fst (StringValue refEngine (VInt 12)) = ''12''"
    "fst (StringValue refEngine (VBool True)) = ''true''"
    by code_simp+
  show ?thesis
    using string_list_shellquote_never_fail [of refEngine "[VString ''ab'', VInt 12, VBool True]"]
      string_list_shellquote_never_fail [of refEngine "[VString ''ab'', VInt 12]"]
      string_list_shellquote_never_fail [of refEngine "[]"]
    by (simp add: t)
qed

subsection \<open>\<open>len\<close>\<close>

lemma sint_int64_of_len: "n < 2 ^ 63 \<Longrightarrow> sint (int64_of_len n) = int n"
  by (simp add: int64_of_len_def signed_of_nat signed_take_bit_int_eq_self)

lemma mapLen_card: "mapLen kvs = card (dom (map_of kvs))"
  by (simp add: mapLen_def dom_map_of_conv_image_fst length_remdups_card_conv)

lemma std_len_slice: "std_len E [VSlice xs] = Return (Some (Literal (VInt (int64_of_len (length xs)))), None)"
  by (simp add: std_len_def IsSlice_def SliceValue_def NewValue_def)

lemma std_len_string: "std_len E [VString s] = Return (Some (Literal (VInt (int64_of_len (length s)))), None)"
  by (simp add: std_len_def IsSlice_def IsString_def StringValue_def toString_def NewValue_def)

lemma std_len_map:
  "std_len E [VMap kvs] = Return (Some (Literal (VInt (int64_of_len (card (dom (map_of kvs)))))), None)"
  by (simp add: std_len_def IsSlice_def IsString_def IsMap_def MapValue_def NewValue_def mapLen_card)

lemma std_len_other:
  \<open>\<not> IsSlice v \<Longrightarrow> \<not> IsString v \<Longrightarrow> \<not> IsMap v \<Longrightarrow>
   std_len E [v] = Return (None, Some (Errorf ''"len" function expects string, slice or map, %v provided'' [AVal v]))\<close>
  by (simp add: std_len_def)

text \<open>
  Claim C9. On one argument, \<open>len\<close> returns the number of elements of a sequence, the
  number of bytes of a string or the number of keys of a mapping, as an \<open>int64\<close> (the
  number itself below \<open>2^63\<close>), and an error for a value of any other kind;
  \<open>len("hello") = 5\<close>, \<open>len(list(1,2,3)) = 3\<close> and \<open>len({"a":1,"b":2}) = 2\<close>.
\<close>

theorem len_counts:
  \<open>std_len E [v] =
     (case v of
        VSlice xs \<Rightarrow> Return (Some (Literal (VInt (int64_of_len (length xs)))), None)
      | VString s \<Rightarrow> Return (Some (Literal (VInt (int64_of_len (length s)))), None)
      | VMap kvs \<Rightarrow> Return (Some (Literal (VInt (int64_of_len (card (dom (map_of kvs)))))), None)
      | _ \<Rightarrow> Return (None, Some (Errorf ''"len" function expects string, slice or map, %v provided'' [AVal v]))) \<and>
   (n < 2 ^ 63 \<longrightarrow> sint (int64_of_len n) = int n) \<and>
   std_len E [VString ''hello''] = Return (Some (Literal (VInt 5)), None) \<and>
   std_len E [VSlice [VInt 1, VInt 2, VInt 3]] = Return (Some (Literal (VInt 3)), None) \<and>
   std_len E [VMap [(''a'', VInt 1), (''b'', VInt 2)]] = Return (Some (Literal (VInt 2)), None)\<close>
proof -
  have kinds: \<open>std_len E [v] =
     (case v of
        VSlice xs \<Rightarrow> Return (Some (Literal (VInt (int64_of_len (length xs)))), None)
      | VString s \<Rightarrow> Return (Some (Literal (VInt (int64_of_len (length s)))), None)
      | VMap kvs \<Rightarrow> Return (Some (Literal (VInt (int64_of_len (card (dom (map_of kvs)))))), None)
      | _ \<Rightarrow> Return (None, Some (Errorf ''"len" function expects string, slice or map, %v provided'' [AVal v])))\<close>
    by (cases v) (simp_all add: std_len_slice std_len_string std_len_map std_len_other IsSlice_def IsString_def IsMap_def)
  have ex1: "std_len E [VString ''hello''] = Return (Some (Literal (VInt 5)), None)"
    by (simp add: std_len_string int64_of_len_def)
  have ex2: "std_len E [VSlice [VInt 1, VInt 2, VInt 3]] = Return (Some (Literal (VInt 3)), None)"
    by (simp add: std_len_slice int64_of_len_def)
  have ex3: "std_len E [VMap [(''a'', VInt 1), (''b'', VInt 2)]] = Return (Some (Literal (VInt 2)), None)"
    by (simp add: std_len_def IsSlice_def IsString_def IsMap_def MapValue_def NewValue_def mapLen_def int64_of_len_def)
  from kinds ex1 ex2 ex3 sint_int64_of_len [of n] show ?thesis
    by blast
qed

theorem len_counts_witness:
  \<open>(3::nat) < 2 ^ 63 \<and> sint (int64_of_len 3) = 3 \<and>
   std_len refEngine [VBool True] =
     Return (None, Some (Errorf ''"len" function expects string, slice or map, %v provided'' [AVal (VBool True)])) \<and>
   std_len refEngine [VSlice [VNone, VNone, VNone]] = Return (Some (Literal (VInt (int64_of_len 3))), None)\<close>
proof -
  have h: "(3::nat) < 2 ^ 63" by simp
  from len_counts [of refEngine "VBool True" 3] len_counts [of refEngine "VSlice [VNone, VNone, VNone]" 3] h
  show ?thesis by (simp add: numeral_3_eq_3)
qed

subsection \<open>\<open>join\<close>\<close>

lemma std_join_none:
  "length args = 1 \<or> length args = 2 \<Longrightarrow> IsNone (args ! 0) \<Longrightarrow>
   std_join E args = Return (Some (Literal (args ! 0)), None)"
  by (auto simp add: std_join_def)

lemma std_join_not_slice:
  \<open>length args = 1 \<or> length args = 2 \<Longrightarrow> \<not> IsNone (args ! 0) \<Longrightarrow> \<not> IsSlice (args ! 0) \<Longrightarrow>
   std_join E args =
     Return (None, Some (Errorf ''"join" function expects a slice as 1st argument: %v provided'' [AVal (args ! 0)]))\<close>
  by (auto simp add: std_join_def)

lemma std_join_slice:
  "length args = 1 \<or> length args = 2 \<Longrightarrow> args ! 0 = VSlice xs \<Longrightarrow>
   std_join E args =
     Return (Some (Literal (VString (strings_Join (map (\<lambda>x. fst (toString E x)) xs)
       (if length args = 2 then fst (StringValue E (args ! 1)) else '','')))), None)"
  by (auto simp add: std_join_def IsNone_def IsSlice_def SliceValue_def NewValue_def)

text \<open>
  Claim C3, as stated: \<open>join\<close> returns an error whenever its first argument is not a
  sequence, none included. It does not: none is not a sequence, and the handler returns
  a none first argument as it is, with no error.
\<close>

theorem join_none_counterexample:
  "\<not> IsSlice VNone \<and> std_join refEngine [VNone] = Return (Some (Literal VNone), None)"
  by (simp add: IsSlice_def std_join_def IsNone_def)

text \<open>
  Claim C3, amended. With one or two arguments, \<open>join\<close> returns the error "expects a
  slice as 1st argument" when the first argument is neither none nor a sequence; it
  returns a none first argument unchanged, with no error; and on a sequence it returns
  the joined string, with no error.
\<close>

theorem join_first_argument:
  \<open>length args = 1 \<or> length args = 2 \<Longrightarrow>
   (\<not> IsSlice (args ! 0) \<and> \<not> IsNone (args ! 0) \<longrightarrow>
      std_join E args =
        Return (None, Some (Errorf ''"join" function expects a slice as 1st argument: %v provided'' [AVal (args ! 0)]))) \<and>
   (IsNone (args ! 0) \<longrightarrow> std_join E args = Return (Some (Literal (args ! 0)), None)) \<and>
   (\<forall>xs. args ! 0 = VSlice xs \<longrightarrow>
      std_join E args =
        Return (Some (Literal (VString (strings_Join (map (\<lambda>x. fst (toString E x)) xs)
          (if length args = 2 then fst (StringValue E (args ! 1)) else '','')))), None))\<close>
  using std_join_none [of args E] std_join_not_slice [of args E] std_join_slice [of args _ E]
  by blast

theorem join_first_argument_witness:
  \<open>std_join refEngine [VInt 5] =
     Return (None, Some (Errorf ''"join" function expects a slice as 1st argument: %v provided'' [AVal (VInt 5)])) \<and>
   std_join refEngine [VNone, VString ''-''] = Return (Some (Literal VNone), None) \<and>
   std_join refEngine [VSlice [VString ''a'', VString ''b''], VString ''-''] =
     Return (Some (Literal (VString ''a-b'')), None)\<close>
proof -
  have l1: "length [VInt 5] = 1 \<or> length [VInt 5] = 2"
    and l2: "length [VNone, VString ''-''] = 1 \<or> length [VNone, VString ''-''] = 2"
    and l3: "length [VSlice [VString ''a'', VString ''b''], VString ''-''] = 1 \<or>
             length [VSlice [VString ''a'', VString ''b''], VString ''-''] = 2"
    by simp_all
  have k: "\<not> IsSlice (VInt 5)" "\<not> IsNone (VInt 5)" "IsNone VNone"
    by (simp_all add: IsSlice_def IsNone_def)
  from join_first_argument [OF l1, of refEngine] join_first_argument [OF l2, of refEngine]
    join_first_argument [OF l3, of refEngine] k
  show ?thesis
    by (simp add: StringValue_def toString_def)
qed

subsection \<open>\<open>at\<close>\<close>

lemma index_out_of_range:
  "sint (k :: int64) < 0 \<or> int n \<le> sint k \<Longrightarrow> \<not> (0 \<le> sint k \<and> sint k < sint (int64_of_len n))"
proof (cases "sint k < 0")
  case True
  then show ?thesis by simp
next
  case False
  assume "sint k < 0 \<or> int n \<le> sint k"
  with False have le: "int n \<le> sint k" by simp
  have "sint k < 2 ^ 63"
    using sint_lt [of k] by simp
  with le have "n < 2 ^ 63"
    by (metis le_less_trans of_nat_less_numeral_power_cancel_iff)
  then have "sint (int64_of_len n) = int n"
    by (rule sint_int64_of_len)
  with le show ?thesis by simp
qed

lemma std_at_slice_out:
  \<open>IntValue E b = (k, None) \<Longrightarrow> sint k < 0 \<or> int (length xs) \<le> sint k \<Longrightarrow>
   std_at E [VSlice xs, b] =
     Return (None, Some (Errorf ''"at" function: error: out of bounds (length=%d, index=%d)'' [ANat (length xs), AInt k]))\<close>
  using index_out_of_range [of k "length xs"]
  by (simp add: std_at_def IsSlice_def SliceValue_def)

lemma std_at_slice_in:
  \<open>IntValue E b = (k, None) \<Longrightarrow> 0 \<le> sint k \<Longrightarrow> sint k < int (length xs) \<Longrightarrow> length xs < 2 ^ 63 \<Longrightarrow>
   std_at E [VSlice xs, b] = Return (Some (Literal (xs ! nat (sint k))), None)\<close>
  by (simp add: std_at_def IsSlice_def SliceValue_def sint_int64_of_len NewValue_def)

lemma std_at_string_out:
  \<open>IntValue E b = (k, None) \<Longrightarrow> sint k < 0 \<or> int (length s) \<le> sint k \<Longrightarrow>
   std_at E [VString s, b] =
     Return (None, Some (Errorf ''"at" function: error: out of bounds (length=%d, index=%d)'' [ANat (length s), AInt k]))\<close>
  using index_out_of_range [of k "length s"]
  by (simp add: std_at_def IsSlice_def IsMap_def IsString_def StringValue_def toString_def)

lemma std_at_map_missing:
  "map_of kvs (fst (StringValue E b)) = None \<Longrightarrow> std_at E [VMap kvs, b] = Return (Some (Literal VNone), None)"
  by (simp add: std_at_def IsSlice_def IsMap_def MapValue_def mapGet_def NoneValue_def)

lemma IntValue_VInt: "IntValue E (VInt k) = (k, None)"
  by (simp add: IntValue_def)

text \<open>
  Claim C2. When the first argument of \<open>at\<close> is a sequence or a string and the second
  converts to an integer \<open>k\<close> that is out of bounds (negative, or not below the
  length), the call returns the error "out of bounds" with the length and \<open>k\<close>; when
  the first argument is a mapping that has no binding for the key, the call returns
  none and no error; an index within bounds returns the element, and
  \<open>at(list(1,2,3), 1)\<close> is \<open>2\<close>, \<open>at(list(1,2,3), 5)\<close> fails and \<open>at({"a":1}, "b")\<close> is
  none.
\<close>

theorem at_strict_on_sequences_safe_on_mappings:
  \<open>(IntValue E b = (k, None) \<and> (sint k < 0 \<or> int (length xs) \<le> sint k) \<longrightarrow>
      std_at E [VSlice xs, b] =
        Return (None, Some (Errorf ''"at" function: error: out of bounds (length=%d, index=%d)''
          [ANat (length xs), AInt k]))) \<and>
   (IntValue E b = (k, None) \<and> (sint k < 0 \<or> int (length s) \<le> sint k) \<longrightarrow>
      std_at E [VString s, b] =
        Return (None, Some (Errorf ''"at" function: error: out of bounds (length=%d, index=%d)''
          [ANat (length s), AInt k]))) \<and>
   (map_of kvs (fst (StringValue E b)) = None \<longrightarrow>
      std_at E [VMap kvs, b] = Return (Some (Literal VNone), None)) \<and>
   (IntValue E b = (k, None) \<and> 0 \<le> sint k \<and> sint k < int (length xs) \<and> length xs < 2 ^ 63 \<longrightarrow>
      std_at E [VSlice xs, b] = Return (Some (Literal (xs ! nat (sint k))), None)) \<and>
   IntValue E (VInt k) = (k, None) \<and>
   std_list [VInt 1, VInt 2, VInt 3] = Return (Some (Literal (VSlice [VInt 1, VInt 2, VInt 3])), None) \<and>
   std_at E [VSlice [VInt 1, VInt 2, VInt 3], VInt 1] = Return (Some (Literal (VInt 2)), None) \<and>
   std_at E [VSlice [VInt 1, VInt 2, VInt 3], VInt 5] =
     Return (None, Some (Errorf ''"at" function: error: out of bounds (length=%d, index=%d)'' [ANat 3, AInt 5])) \<and>
   std_at E [VMap [(''a'', VInt 1)], VString ''b''] = Return (Some (Literal VNone), None)\<close>
proof -
  have ex_list: "std_list [VInt 1, VInt 2, VInt 3] = Return (Some (Literal (VSlice [VInt 1, VInt 2, VInt 3])), None)"
    by (simp add: std_list_def NewValue_def)
  have ex_in: "std_at E [VSlice [VInt 1, VInt 2, VInt 3], VInt 1] = Return (Some (Literal (VInt 2)), None)"
    using std_at_slice_in [of E "VInt 1" 1 "[VInt 1, VInt 2, VInt 3]"]
    by (simp add: IntValue_VInt)
  have ex_out: \<open>std_at E [VSlice [VInt 1, VInt 2, VInt 3], VInt 5] =
     Return (None, Some (Errorf ''"at" function: error: out of bounds (length=%d, index=%d)'' [ANat 3, AInt 5]))\<close>
    using std_at_slice_out [of E "VInt 5" 5 "[VInt 1, VInt 2, VInt 3]"]
    by (simp add: IntValue_VInt)
  have ex_map: "std_at E [VMap [(''a'', VInt 1)], VString ''b''] = Return (Some (Literal VNone), None)"
    using std_at_map_missing [of "[(''a'', VInt 1)]" E "VString ''b''"]
    by (simp add: StringValue_def toString_def)
  from std_at_slice_out [of E b k xs] std_at_string_out [of E b k s] std_at_map_missing [of kvs E b]
    std_at_slice_in [of E b k xs] IntValue_VInt [of E k] ex_list ex_in ex_out ex_map
  show ?thesis
    by blast
qed

theorem at_strict_on_sequences_safe_on_mappings_witness:
  \<open>std_at refEngine [VSlice [VInt 7, VInt 8], VInt 2] =
     Return (None, Some (Errorf ''"at" function: error: out of bounds (length=%d, index=%d)'' [ANat 2, AInt 2])) \<and>
   std_at refEngine [VString ''ab'', VInt (- 1)] =
     Return (None, Some (Errorf ''"at" function: error: out of bounds (length=%d, index=%d)'' [ANat 2, AInt (- 1)])) \<and>
   std_at refEngine [VMap [(''a'', VInt 1)], VInt 3] = Return (Some (Literal VNone), None) \<and>
   std_at refEngine [VSlice [VInt 7, VInt 8], VInt 1] = Return (Some (Literal (VInt 8)), None)\<close>
proof -
  have i: "IntValue refEngine (VInt 2) = (2, None)" "IntValue refEngine (VInt (- 1)) = (- 1, None)"
    "IntValue refEngine (VInt 1) = (1, None)"
    by (simp_all add: IntValue_def)
  have o: "sint (2 :: int64) < 0 \<or> int (length [VInt 7, VInt 8]) \<le> sint (2 :: int64)"
    "sint (- 1 :: int64) < 0 \<or> int (length ''ab'') \<le> sint (- 1 :: int64)"
    "0 \<le> sint (1 :: int64)" "sint (1 :: int64) < int (length [VInt 7, VInt 8])"
    "length [VInt 7, VInt 8] < 2 ^ 63"
    by simp_all
  have m: "map_of [(''a'', VInt 1)] (fst (StringValue refEngine (VInt 3))) = None"
    by code_simp
  from at_strict_on_sequences_safe_on_mappings [of refEngine "VInt 2" 2 "[VInt 7, VInt 8]" "''ab''" "[(''a'', VInt 1)]"]
    at_strict_on_sequences_safe_on_mappings [of refEngine "VInt (- 1)" "- 1" "[VInt 7, VInt 8]" "''ab''" "[(''a'', VInt 1)]"]
    at_strict_on_sequences_safe_on_mappings [of refEngine "VInt 3" 3 "[VInt 7, VInt 8]" "''ab''" "[(''a'', VInt 1)]"]
    at_strict_on_sequences_safe_on_mappings [of refEngine "VInt 1" 1 "[VInt 7, VInt 8]" "''ab''" "[(''a'', VInt 1)]"]
    i o m
  show ?thesis
    by simp
qed

subsection \<open>The casting helpers\<close>

text \<open>
  Claim C1, as stated: each helper returns \<open>v\<close> unchanged when \<open>v\<close> has the target type
  and otherwise wraps \<open>v\<close> in a call of the cast function of its target type. It does
  not: \<open>CastToString\<close> turns a static value that is not a string into the static string
  of its textual form, which is neither \<open>v\<close> nor a call; and \<open>CastToFloat\<close> wraps in a
  call of \<open>int\<close>, not of \<open>float\<close>.
\<close>

theorem casts_counterexample:
  "Static (Literal (VInt 5)) = Some (VInt 5) \<and>
   exprType refEngine (Literal (VInt 5)) = TypeInt64 \<and>
   CastToString refEngine (Literal (VInt 5)) = Literal (VString ''5'') \<and>
   CastToString refEngine (Literal (VInt 5)) \<noteq> Literal (VInt 5) \<and>
   CastToString refEngine (Literal (VInt 5)) \<noteq> Call ''string'' [Literal (VInt 5)] \<and>
   exprType refEngine (VariableRef ''x'') = TypeUnknown \<and>
   CastToFloat refEngine (VariableRef ''x'') = Call ''int'' [VariableRef ''x''] \<and>
   CastToFloat refEngine (VariableRef ''x'') \<noteq> Call ''float'' [VariableRef ''x'']"
proof -
  have "CastToString refEngine (Literal (VInt 5)) = Literal (VString ''5'')"
    by code_simp
  moreover have "CastToFloat refEngine (VariableRef ''x'') = Call ''int'' [VariableRef ''x'']"
    by code_simp
  moreover have "exprType refEngine (Literal (VInt 5)) = TypeInt64" "exprType refEngine (VariableRef ''x'') = TypeUnknown"
    by (simp_all add: refEngine_def typeRef_def)
  ultimately show ?thesis
    by (simp add: Static_def)
qed

text \<open>
  Claim C1, amended. \<open>CastToString\<close> returns, for a static \<open>v\<close>, the static string of
  the textual form of its value (which is \<open>v\<close> itself when \<open>v\<close> is a static string);
  for any other \<open>v\<close>, \<open>v\<close> unchanged when its type is string and the call
  \<open>string(v)\<close> otherwise. \<open>CastToBool\<close> and \<open>CastToInt\<close> return \<open>v\<close> unchanged when its
  type is the target type and the call \<open>bool(v)\<close>, \<open>int(v)\<close> otherwise. \<open>CastToFloat\<close>
  returns \<open>v\<close> unchanged when its type is float, and otherwise a call with \<open>v\<close> as its
  one argument.
\<close>

theorem casts_by_static_type:
  "(Static v = Some s \<longrightarrow> CastToString E v = Literal (VString (fst (toString E s)))) \<and>
   CastToString E (Literal (VString str)) = Literal (VString str) \<and>
   (Static v = None \<and> exprType E v = TypeString \<longrightarrow> CastToString E v = v) \<and>
   (Static v = None \<and> exprType E v \<noteq> TypeString \<longrightarrow> CastToString E v = Call ''string'' [v]) \<and>
   (exprType E v = TypeBool \<longrightarrow> CastToBool E v = v) \<and>
   (exprType E v \<noteq> TypeBool \<longrightarrow> CastToBool E v = Call ''bool'' [v]) \<and>
   (exprType E v = TypeInt64 \<longrightarrow> CastToInt E v = v) \<and>
   (exprType E v \<noteq> TypeInt64 \<longrightarrow> CastToInt E v = Call ''int'' [v]) \<and>
   (exprType E v = TypeFloat64 \<longrightarrow> CastToFloat E v = v) \<and>
   (exprType E v \<noteq> TypeFloat64 \<longrightarrow> (\<exists>name. CastToFloat E v = Call name [v]))"
  by (simp add: CastToString_def CastToBool_def CastToInt_def CastToFloat_def NewStringValue_def NewValue_def
      newCall_def stringCastStdFn_def boolCastStdFn_def intCastStdFn_def Static_def toString_def)

theorem casts_by_static_type_witness:
  "CastToString refEngine (Literal (VBool True)) = Literal (VString ''true'') \<and>
   CastToString refEngine (VariableRef ''x'') = Call ''string'' [VariableRef ''x''] \<and>
   CastToBool refEngine (Literal (VBool True)) = Literal (VBool True) \<and>
   CastToBool refEngine (VariableRef ''x'') = Call ''bool'' [VariableRef ''x''] \<and>
   CastToInt refEngine (Literal (VInt 3)) = Literal (VInt 3) \<and>
   CastToInt refEngine (VariableRef ''x'') = Call ''int'' [VariableRef ''x''] \<and>
   CastToFloat refEngine (Literal (VFloat 0)) = Literal (VFloat 0) \<and>
   (\<exists>name. CastToFloat refEngine (VariableRef ''x'') = Call name [VariableRef ''x''])"
proof -
  have s: "Static (Literal (VBool True)) = Some (VBool True)" "Static (VariableRef ''x'') = None"
    by (simp_all add: Static_def)
  have t: "exprType refEngine (VariableRef ''x'') = TypeUnknown"
    "exprType refEngine (Literal (VBool True)) = TypeBool"
    "exprType refEngine (Literal (VInt 3)) = TypeInt64"
    "exprType refEngine (Literal (VFloat 0)) = TypeFloat64"
    by (simp_all add: refEngine_def typeRef_def)
  have x: "fst (toString refEngine (VBool True)) = ''true''"
    by code_simp
  from casts_by_static_type [of "Literal (VBool True)" "VBool True" refEngine "[]"]
    casts_by_static_type [of "VariableRef ''x''" "VNone" refEngine "[]"]
    casts_by_static_type [of "Literal (VInt 3)" "VInt 3" refEngine "[]"]
    casts_by_static_type [of "Literal (VFloat 0)" "VFloat 0" refEngine "[]"]
    s t x
  show ?thesis
    by simp
qed

subsection \<open>\<open>chunk\<close>\<close>

lemma chunksOf_Nil: "chunksOf n [] = []"
  by simp

lemma chunksOf_step: "0 < n \<Longrightarrow> xs \<noteq> [] \<Longrightarrow> chunksOf n xs = take n xs # chunksOf n (drop n xs)"
  by simp

declare chunksOf.simps [simp del]

lemma concat_chunksOf: "0 < n \<Longrightarrow> concat (chunksOf n xs) = xs"
proof (induction n xs rule: chunksOf.induct)
  case (1 n xs)
  show ?case
  proof (cases "xs = []")
    case True
    then show ?thesis by (simp add: chunksOf_Nil)
  next
    case False
    with 1 show ?thesis by (simp add: chunksOf_step)
  qed
qed

lemma chunksOf_lengths: "0 < n \<Longrightarrow> c \<in> set (chunksOf n xs) \<Longrightarrow> c \<noteq> [] \<and> length c \<le> n"
proof (induction n xs rule: chunksOf.induct)
  case (1 n xs)
  show ?case
  proof (cases "xs = []")
    case True
    with 1 show ?thesis by (simp add: chunksOf_Nil)
  next
    case False
    with 1 show ?thesis by (auto simp add: chunksOf_step)
  qed
qed

lemma chunksOf_eq_Nil: "0 < n \<Longrightarrow> chunksOf n xs = [] \<longleftrightarrow> xs = []"
  by (cases "xs = []") (simp_all add: chunksOf_Nil chunksOf_step)

lemma chunksOf_butlast: "0 < n \<Longrightarrow> c \<in> set (butlast (chunksOf n xs)) \<Longrightarrow> length c = n"
proof (induction n xs rule: chunksOf.induct)
  case (1 n xs)
  show ?case
  proof (cases "xs = []")
    case True
    with 1 show ?thesis by (simp add: chunksOf_Nil)
  next
    case False
    show ?thesis
    proof (cases "drop n xs = []")
      case True
      with 1 False show ?thesis by (simp add: chunksOf_step chunksOf_Nil)
    next
      case rest: False
      then have long: "n < length xs" by simp
      have step: "chunksOf n xs = take n xs # chunksOf n (drop n xs)"
        using "1.prems"(1) False by (rule chunksOf_step)
      have more: "chunksOf n (drop n xs) \<noteq> []"
        using rest "1.prems"(1) by (simp add: chunksOf_eq_Nil)
      from "1.prems"(2) have "c = take n xs \<or> c \<in> set (butlast (chunksOf n (drop n xs)))"
        unfolding step using more by simp
      then show ?thesis
      proof
        assume "c = take n xs"
        with long show ?thesis by simp
      next
        assume "c \<in> set (butlast (chunksOf n (drop n xs)))"
        with "1.IH" "1.prems"(1) False show ?thesis by simp
      qed
    qed
  qed
qed

lemma sint_add_small:
  fixes a b :: int64
  assumes "0 \<le> sint a" "0 \<le> sint b" "sint a + sint b < 2 ^ 63"
  shows "sint (a + b) = sint a + sint b"
proof -
  have "sint (a + b) = signed_take_bit 63 (sint a + sint b)"
    by (simp add: sint_word_ariths)
  also have "\<dots> = sint a + sint b"
    using assms by (intro signed_take_bit_int_eq_self) simp_all
  finally show ?thesis .
qed

lemma chunk_loop_chunksOf:
  assumes n: "0 < n" and sz: "sint sz = int n" and len: "length list < 2 ^ 62"
  shows "sint i = int k \<Longrightarrow> k = 0 \<or> n \<le> k \<Longrightarrow>
    chunk_loop list (int64_of_len (length list)) sz i acc = Return (acc @ chunksOf n (drop k list))"
proof (induction "length list - k" arbitrary: k i acc rule: less_induct)
  case less
  have l: "sint (int64_of_len (length list)) = int (length list)"
    using len by (intro sint_int64_of_len) simp
  show ?case
  proof (cases "k < length list")
    case False
    then have rest: "drop k list = []" by simp
    from False less.prems l have stop: "\<not> (0 < sint sz \<and> sint i < sint (int64_of_len (length list)))"
      by simp
    show ?thesis
      by (subst chunk_loop.simps) (simp only: stop if_False rest chunksOf_Nil append_Nil2)
  next
    case True
    have small: "int k + int n < 2 ^ 63"
    proof (cases "k = 0")
      case True
      with sz sint_lt [of sz] show ?thesis by simp
    next
      case False
      with less.prems have "n \<le> k" by simp
      with \<open>k < length list\<close> len have "k + n < 2 ^ 62 + 2 ^ 62" by linarith
      then show ?thesis by (simp flip: of_nat_add) 
    qed
    have next_i: "sint (i + sz) = int (k + n)"
      using sint_add_small [of i sz] less.prems sz small by simp
    have piece: "take (nat (sint (if sint (i + sz) > sint (int64_of_len (length list)) then int64_of_len (length list) else i + sz)) - nat (sint i)) (drop (nat (sint i)) list)
        = take n (drop k list)"
      using True less.prems l next_i by (auto simp add: min_def nat_int_add)
    have ih: "chunk_loop list (int64_of_len (length list)) sz (i + sz) (acc @ [take n (drop k list)])
        = Return ((acc @ [take n (drop k list)]) @ chunksOf n (drop (k + n) list))"
      using True n next_i by (intro less.hyps) simp_all
    have unfold: "chunksOf n (drop k list) = take n (drop k list) # chunksOf n (drop (k + n) list)"
      using True n by (simp add: chunksOf_step add.commute)
    have guard: "0 \<le> sint i \<and>
        sint i \<le> sint (if sint (i + sz) > sint (int64_of_len (length list)) then int64_of_len (length list) else i + sz) \<and>
        sint (if sint (i + sz) > sint (int64_of_len (length list)) then int64_of_len (length list) else i + sz) \<le> int (length list)"
      using True less.prems l next_i by simp
    have cond: "0 < sint sz \<and> sint i < sint (int64_of_len (length list))"
      using True less.prems l sz n by simp
    have "chunk_loop list (int64_of_len (length list)) sz i acc =
        chunk_loop list (int64_of_len (length list)) sz (i + sz)
          (acc @ [take (nat (sint (if sint (i + sz) > sint (int64_of_len (length list)) then int64_of_len (length list) else i + sz)) - nat (sint i)) (drop (nat (sint i)) list)])"
      by (subst chunk_loop.simps) (simp only: cond guard Let_def if_True simp_thms)
    also have "\<dots> = chunk_loop list (int64_of_len (length list)) sz (i + sz) (acc @ [take n (drop k list)])"
      by (simp only: piece)
    also have "\<dots> = Return ((acc @ [take n (drop k list)]) @ chunksOf n (drop (k + n) list))"
      by (rule ih)
    also have "\<dots> = Return (acc @ chunksOf n (drop k list))"
      by (simp only: unfold append_assoc append_Cons append_Nil)
    finally show ?thesis .
  qed
qed

lemma std_chunk_ok:
  assumes "IntValue E b = (sz, None)" "1 \<le> sint sz" "length xs < 2 ^ 62"
  shows "std_chunk E [VSlice xs, b] = Return (Some (Literal (VSlice (map VSlice (chunksOf (nat (sint sz)) xs)))), None)"
proof -
  have "chunk_loop xs (int64_of_len (length xs)) sz 0 [] = Return ([] @ chunksOf (nat (sint sz)) (drop 0 xs))"
    using assms by (intro chunk_loop_chunksOf) simp_all
  with assms show ?thesis
    by (simp add: std_chunk_def SliceValue_def NewValue_def)
qed

lemma std_chunk_size:
  \<open>IntValue E b = (sz, None) \<Longrightarrow> sint sz \<le> 0 \<Longrightarrow>
   std_chunk E [VSlice xs, b] =
     Return (None, Some (Errorf ''"chunk" function expects 2nd argument to be >= 1, %s provided: %v'' [AVal b, ANil]))\<close>
  by (simp add: std_chunk_def SliceValue_def)

lemma std_chunk_not_slice:
  \<open>\<not> IsSlice a \<Longrightarrow>
   std_chunk E [a, b] =
     Return (None, Some (Errorf ''"chunk" function expects 1st argument to be a list, %s provided: %v''
       [AVal a, AErr (TypeError ''slice'' a)]))\<close>
  by (cases a) (simp_all add: std_chunk_def SliceValue_def IsSlice_def)

text \<open>
  Claim C6. For a sequence \<open>xs\<close> and a second argument that converts to an integer
  \<open>size \<ge> 1\<close>, \<open>chunk\<close> returns \<open>xs\<close> cut into consecutive pieces: their concatenation
  is \<open>xs\<close>, none is empty or longer than \<open>size\<close>, and all but the last have exactly
  \<open>size\<close> elements. It returns an error when \<open>size \<le> 0\<close> and when the first argument is
  not a sequence; \<open>chunk(list(1,2,3,4,5), 2)\<close> is \<open>[[1,2],[3,4],[5]]\<close>. The sequence is
  shorter than \<open>2^62\<close>, as every Go slice is, so that \<open>i + size\<close> does not overflow.
\<close>

theorem chunk_splits_in_order:
  \<open>(IntValue E b = (sz, None) \<and> 1 \<le> sint sz \<and> length xs < 2 ^ 62 \<longrightarrow>
      (\<exists>cs. std_chunk E [VSlice xs, b] = Return (Some (Literal (VSlice (map VSlice cs))), None) \<and>
            cs = chunksOf (nat (sint sz)) xs \<and>
            concat cs = xs \<and>
            (\<forall>c \<in> set cs. c \<noteq> [] \<and> int (length c) \<le> sint sz) \<and>
            (\<forall>c \<in> set (butlast cs). int (length c) = sint sz))) \<and>
   (IntValue E b = (sz, None) \<and> sint sz \<le> 0 \<longrightarrow>
      std_chunk E [VSlice xs, b] =
        Return (None, Some (Errorf ''"chunk" function expects 2nd argument to be >= 1, %s provided: %v'' [AVal b, ANil]))) \<and>
   (\<not> IsSlice a \<longrightarrow>
      std_chunk E [a, b] =
        Return (None, Some (Errorf ''"chunk" function expects 1st argument to be a list, %s provided: %v''
          [AVal a, AErr (TypeError ''slice'' a)]))) \<and>
   IntValue E (VInt sz) = (sz, None) \<and>
   std_chunk E [VSlice [VInt 1, VInt 2, VInt 3, VInt 4, VInt 5], VInt 2] =
     Return (Some (Literal (VSlice [VSlice [VInt 1, VInt 2], VSlice [VInt 3, VInt 4], VSlice [VInt 5]])), None)\<close>
proof -
  have split: "\<exists>cs. std_chunk E [VSlice xs, b] = Return (Some (Literal (VSlice (map VSlice cs))), None) \<and>
            cs = chunksOf (nat (sint sz)) xs \<and>
            concat cs = xs \<and>
            (\<forall>c \<in> set cs. c \<noteq> [] \<and> int (length c) \<le> sint sz) \<and>
            (\<forall>c \<in> set (butlast cs). int (length c) = sint sz)"
    if h: "IntValue E b = (sz, None)" "1 \<le> sint sz" "length xs < 2 ^ 62"
  proof -
    have pos: "0 < nat (sint sz)"
      using h by simp
    have a: "concat (chunksOf (nat (sint sz)) xs) = xs"
      using pos by (rule concat_chunksOf)
    have b: "\<forall>c \<in> set (chunksOf (nat (sint sz)) xs). c \<noteq> [] \<and> int (length c) \<le> sint sz"
      using chunksOf_lengths [OF pos] h by fastforce
    have c: "\<forall>c \<in> set (butlast (chunksOf (nat (sint sz)) xs)). int (length c) = sint sz"
      using chunksOf_butlast [OF pos] h by fastforce
    from std_chunk_ok [OF h] a b c show ?thesis
      by blast
  qed
  have i: "IntValue E (VInt sz) = (sz, None)" for sz
    by (simp add: IntValue_def)
  have pieces: "chunksOf 2 [VInt 1, VInt 2, VInt 3, VInt 4, VInt 5] = [[VInt 1, VInt 2], [VInt 3, VInt 4], [VInt 5]]"
    by code_simp
  have example: "std_chunk E [VSlice [VInt 1, VInt 2, VInt 3, VInt 4, VInt 5], VInt 2] =
     Return (Some (Literal (VSlice [VSlice [VInt 1, VInt 2], VSlice [VInt 3, VInt 4], VSlice [VInt 5]])), None)"
    using std_chunk_ok [of E "VInt 2" 2 "[VInt 1, VInt 2, VInt 3, VInt 4, VInt 5]"] i [of 2]
    by (simp add: pieces)
  from split std_chunk_size [of E b sz xs] std_chunk_not_slice [of a E b] i [of sz] example
  show ?thesis
    by blast
qed

theorem chunk_splits_in_order_witness:
  \<open>(\<exists>cs. std_chunk refEngine [VSlice [VNone, VBool True, VNone], VInt 2] =
            Return (Some (Literal (VSlice (map VSlice cs))), None) \<and>
         cs = [[VNone, VBool True], [VNone]]) \<and>
   std_chunk refEngine [VSlice [VNone, VBool True, VNone], VInt 0] =
     Return (None, Some (Errorf ''"chunk" function expects 2nd argument to be >= 1, %s provided: %v'' [AVal (VInt 0), ANil])) \<and>
   std_chunk refEngine [VString ''abc'', VInt 2] =
     Return (None, Some (Errorf ''"chunk" function expects 1st argument to be a list, %s provided: %v''
       [AVal (VString ''abc''), AErr (TypeError ''slice'' (VString ''abc''))]))\<close>
proof -
  have i: "IntValue refEngine (VInt 2) = (2, None)" "IntValue refEngine (VInt 0) = (0, None)"
    by (simp_all add: IntValue_def)
  have h: "1 \<le> sint (2 :: int64)" "length [VNone, VBool True, VNone] < 2 ^ 62" "sint (0 :: int64) \<le> 0"
    "\<not> IsSlice (VString ''abc'')"
    by (simp_all add: IsSlice_def)
  have pieces: "chunksOf (nat (sint (2 :: int64))) [VNone, VBool True, VNone] = [[VNone, VBool True], [VNone]]"
    by code_simp
  from chunk_splits_in_order [of refEngine "VInt 2" 2 "[VNone, VBool True, VNone]" "VString ''abc''"]
    chunk_splits_in_order [of refEngine "VInt 0" 0 "[VNone, VBool True, VNone]" "VString ''abc''"]
    i h pieces
  show ?thesis
    by simp
qed

subsection \<open>\<open>map\<close>\<close>

lemma upt_0_Suc: "[0..<Suc n] = 0 # map Suc [0..<n]"
  by (simp add: upt_conv_Cons map_Suc_upt del: upt_Suc)

lemma map_loop_ok:
  assumes rt: "Compile E (exprString E expr) = Inr ex"
  shows "(\<forall>j<length xs. Resolve E ex (iterMachine (xs ! j) (i + j)) = Inr (r j)) \<Longrightarrow>
    map_loop E expr xs i result = Return (Inr (result @ map (\<lambda>j. exprString E (r j)) [0..<length xs]))"
proof (induction xs arbitrary: i result r)
  case Nil
  then show ?case by simp
next
  case (Cons x xs)
  from Cons.prems have first: "Resolve E ex (iterMachine x i) = Inr (r 0)"
    by fastforce
  from Cons.prems have rest: "\<forall>j<length xs. Resolve E ex (iterMachine (xs ! j) (Suc i + j)) = Inr ((r \<circ> Suc) j)"
    by fastforce
  have "map_loop E expr (x # xs) i result = map_loop E expr xs (Suc i) (result @ [exprString E (r 0)])"
    by (simp add: rt first)
  also have "\<dots> = Return (Inr ((result @ [exprString E (r 0)]) @ map (\<lambda>j. exprString E ((r \<circ> Suc) j)) [0..<length xs]))"
    using rest by (rule Cons.IH)
  also have "\<dots> = Return (Inr (result @ map (\<lambda>j. exprString E (r j)) [0..<length (x # xs)]))"
    by (simp add: upt_0_Suc comp_def del: upt_Suc)
  finally show ?case .
qed

lemma map_loop_error:
  assumes rt: "Compile E (exprString E expr) = Inr ex"
  shows \<open>k < length xs \<Longrightarrow> (\<forall>j<k. \<exists>v. Resolve E ex (iterMachine (xs ! j) (i + j)) = Inr v) \<Longrightarrow>
    Resolve E ex (iterMachine (xs ! k) (i + k)) = Inl err \<Longrightarrow>
    map_loop E expr xs i result =
      Return (Inl (Errorf ''"map" function: error while mapping %d index (%v): %v'' [ANat (i + k), AVal (xs ! k), AErr err]))\<close>
proof (induction xs arbitrary: i k result)
  case Nil
  then show ?case by simp
next
  case (Cons x xs)
  show ?case
  proof (cases k)
    case 0
    with Cons.prems show ?thesis by (simp add: rt)
  next
    case (Suc k')
    with Cons.prems obtain v where first: "Resolve E ex (iterMachine x i) = Inr v"
      by fastforce
    from Suc Cons.prems have "k' < length xs"
      and "\<forall>j<k'. \<exists>v. Resolve E ex (iterMachine (xs ! j) (Suc i + j)) = Inr v"
      and "Resolve E ex (iterMachine (xs ! k') (Suc i + k')) = Inl err"
      by fastforce+
    then have \<open>map_loop E expr xs (Suc i) (result @ [exprString E v]) =
      Return (Inl (Errorf ''"map" function: error while mapping %d index (%v): %v'' [ANat (Suc i + k'), AVal (xs ! k'), AErr err]))\<close>
      by (rule Cons.IH)
    with Suc first show ?thesis by (simp add: rt)
  qed
qed

lemma std_map_loop:
  "Compile E (fst (StringValue E b)) = Inr expr \<Longrightarrow>
   std_map E [VSlice xs, b] =
     (case map_loop E expr xs 0 [] of
        Panic \<Rightarrow> Panic
      | Return (Inl err) \<Rightarrow> Return (None, Some err)
      | Return (Inr result) \<Rightarrow> Return (ofCompile (Compile E (''list('' @ strings_Join result '','' @ '')''))))"
  by (simp add: std_map_def SliceValue_def)

lemma std_map_not_compiled:
  \<open>Compile E (fst (StringValue E b)) = Inl err \<Longrightarrow>
   std_map E [VSlice xs, b] =
     Return (None, Some (Errorf ''"map" function expects 2nd argument to be valid expression, '%s' provided: %v''
       [AVal b, AErr err]))\<close>
  by (simp add: std_map_def SliceValue_def)

text \<open>
  Claim C4. For a sequence \<open>xs\<close> and a second argument whose text compiles to \<open>expr\<close>
  (and \<open>expr.String()\<close> compiles again, the round trip of the spec), \<open>map\<close> resolves the
  expression once for each element, in order, each time against a machine built for
  that element alone, which binds \<open>_.value\<close> to the element and \<open>_.index\<close> and \<open>_.key\<close>
  to its index and nothing else. When every element resolves, the result is the
  compiled call \<open>list(r0,...,rn)\<close> of the results in order; \<open>map\<close> fails when the text
  does not compile, and with the error of the first element whose resolution fails.
  With the small engine, \<open>map(list(1,2,3), "_.value * 2")\<close> is \<open>list(2,4,6)\<close>, which
  \<open>list\<close> turns into \<open>[2,4,6]\<close>.
\<close>

theorem map_evaluates_each_element:
  \<open>(Compile E (fst (StringValue E b)) = Inr expr \<and> Compile E (exprString E expr) = Inr ex \<and>
    (\<forall>j<length xs. Resolve E ex (iterMachine (xs ! j) j) = Inr (r j)) \<longrightarrow>
      std_map E [VSlice xs, b] =
        Return (ofCompile (Compile E
          (''list('' @ strings_Join (map (\<lambda>j. exprString E (r j)) [0..<length xs]) '','' @ '')'')))) \<and>
   (Compile E (fst (StringValue E b)) = Inl err \<longrightarrow>
      std_map E [VSlice xs, b] =
        Return (None, Some (Errorf ''"map" function expects 2nd argument to be valid expression, '%s' provided: %v''
          [AVal b, AErr err]))) \<and>
   (Compile E (fst (StringValue E b)) = Inr expr \<and> Compile E (exprString E expr) = Inr ex \<and> k < length xs \<and>
    (\<forall>j<k. \<exists>v. Resolve E ex (iterMachine (xs ! j) j) = Inr v) \<and>
    Resolve E ex (iterMachine (xs ! k) k) = Inl err \<longrightarrow>
      std_map E [VSlice xs, b] =
        Return (None, Some (Errorf ''"map" function: error while mapping %d index (%v): %v''
          [ANat k, AVal (xs ! k), AErr err]))) \<and>
   iterMachine x i = [''_.value'' \<mapsto> x, ''_.index'' \<mapsto> VInt (word_of_nat i), ''_.key'' \<mapsto> VInt (word_of_nat i)] \<and>
   std_map refEngine [VSlice [VInt 1, VInt 2, VInt 3], VString ''_.value * 2''] =
     Return (Some (Call ''list'' [Literal (VInt 2), Literal (VInt 4), Literal (VInt 6)]), None) \<and>
   stdMachine_Call refEngine ''list'' [VInt 2, VInt 4, VInt 6] =
     Return (Some (Literal (VSlice [VInt 2, VInt 4, VInt 6])), True, None)\<close>
proof -
  have ok: "std_map E [VSlice xs, b] =
        Return (ofCompile (Compile E
          (''list('' @ strings_Join (map (\<lambda>j. exprString E (r j)) [0..<length xs]) '','' @ '')'')))"
    if "Compile E (fst (StringValue E b)) = Inr expr" "Compile E (exprString E expr) = Inr ex"
      "\<forall>j<length xs. Resolve E ex (iterMachine (xs ! j) j) = Inr (r j)"
    using that map_loop_ok [of E expr ex xs 0 r "[]"] by (simp add: std_map_loop)
  have failing: \<open>std_map E [VSlice xs, b] =
        Return (None, Some (Errorf ''"map" function: error while mapping %d index (%v): %v''
          [ANat k, AVal (xs ! k), AErr err]))\<close>
    if "Compile E (fst (StringValue E b)) = Inr expr" "Compile E (exprString E expr) = Inr ex" "k < length xs"
      "\<forall>j<k. \<exists>v. Resolve E ex (iterMachine (xs ! j) j) = Inr v"
      "Resolve E ex (iterMachine (xs ! k) k) = Inl err"
    using that map_loop_error [of E expr ex k xs 0 err "[]"] by (simp add: std_map_loop)
  have scope: "iterMachine x i = [''_.value'' \<mapsto> x, ''_.index'' \<mapsto> VInt (word_of_nat i), ''_.key'' \<mapsto> VInt (word_of_nat i)]"
    by (simp add: iterMachine_def Register_def NewMachine_def)
  have example: "std_map refEngine [VSlice [VInt 1, VInt 2, VInt 3], VString ''_.value * 2''] =
     Return (Some (Call ''list'' [Literal (VInt 2), Literal (VInt 4), Literal (VInt 6)]), None)"
    by code_simp
  have resolved: "stdMachine_Call refEngine ''list'' [VInt 2, VInt 4, VInt 6] =
     Return (Some (Literal (VSlice [VInt 2, VInt 4, VInt 6])), True, None)"
    by (simp add: stdMachine_Call_def stdFunction_list std_list_def NewValue_def)
  from ok failing std_map_not_compiled [of E b err xs] scope example resolved show ?thesis
    by blast
qed

theorem map_evaluates_each_element_witness:
  \<open>std_map refEngine [VSlice [VInt 1, VInt 2], VString ''_.value * 2''] =
     Return (Some (Call ''list'' [Literal (VInt 2), Literal (VInt 4)]), None) \<and>
   std_map refEngine [VSlice [VInt 1, VInt 2], VString ''2 *''] =
     Return (None, Some (Errorf ''"map" function expects 2nd argument to be valid expression, '%s' provided: %v''
       [AVal (VString ''2 *''), AErr (ParseError ''2*'')])) \<and>
   std_map refEngine [VSlice [VInt 1, VBool True], VString ''_.value * 2''] =
     Return (None, Some (Errorf ''"map" function: error while mapping %d index (%v): %v''
       [ANat 1, AVal (VBool True), AErr (TypeError ''*'' (VBool True))]))\<close>
proof -
  define ex where "ex = Call ''*'' [VariableRef ''_.value'', Literal (VInt 2)]"
  define r where "r = (\<lambda>j::nat. if j = 0 then Literal (VInt 2) else Literal (VInt 4))"
  have c: "Compile refEngine (fst (StringValue refEngine (VString ''_.value * 2''))) = Inr ex"
    "Compile refEngine (exprString refEngine ex) = Inr ex"
    "Compile refEngine (fst (StringValue refEngine (VString ''2 *''))) = Inl (ParseError ''2*'')"
    unfolding ex_def by code_simp+
  have r0: "Resolve refEngine ex (iterMachine (VInt 1) 0) = Inr (Literal (VInt 2))"
    and r1: "Resolve refEngine ex (iterMachine (VInt 2) (Suc 0)) = Inr (Literal (VInt 4))"
    and r2: "Resolve refEngine ex (iterMachine (VBool True) (Suc 0)) = Inl (TypeError ''*'' (VBool True))"
    unfolding ex_def by code_simp+
  have all: "\<forall>j<length [VInt 1, VInt 2]. Resolve refEngine ex (iterMachine ([VInt 1, VInt 2] ! j) j) = Inr (r j)"
    by (simp add: less_Suc_eq r_def r0 r1)
  have before: "\<forall>j<1. \<exists>v. Resolve refEngine ex (iterMachine ([VInt 1, VBool True] ! j) j) = Inr v"
    by (simp add: r0)
  have at_1: "(1::nat) < length [VInt 1, VBool True]"
    "Resolve refEngine ex (iterMachine ([VInt 1, VBool True] ! 1) 1) = Inl (TypeError ''*'' (VBool True))"
    by (simp_all add: r2)
  have listing: "Compile refEngine (''list('' @ strings_Join (map (\<lambda>j. exprString refEngine (r j)) [0..<length [VInt 1, VInt 2]]) '','' @ '')'')
      = Inr (Call ''list'' [Literal (VInt 2), Literal (VInt 4)])"
    unfolding r_def by code_simp
  from map_evaluates_each_element [of refEngine "VString ''_.value * 2''" ex ex "[VInt 1, VInt 2]" r]
    c all listing
  have first: "std_map refEngine [VSlice [VInt 1, VInt 2], VString ''_.value * 2''] =
     Return (Some (Call ''list'' [Literal (VInt 2), Literal (VInt 4)]), None)"
    by (simp add: ofCompile_def)
  from map_evaluates_each_element [of refEngine "VString ''2 *''" _ _ _ _ "ParseError ''2*''"] c
  have second: \<open>std_map refEngine [VSlice [VInt 1, VInt 2], VString ''2 *''] =
     Return (None, Some (Errorf ''"map" function expects 2nd argument to be valid expression, '%s' provided: %v''
       [AVal (VString ''2 *''), AErr (ParseError ''2*'')]))\<close>
    by simp
  from map_evaluates_each_element [of refEngine "VString ''_.value * 2''" ex ex "[VInt 1, VBool True]" _
      "TypeError ''*'' (VBool True)" 1]
    c before at_1
  have third: \<open>std_map refEngine [VSlice [VInt 1, VBool True], VString ''_.value * 2''] =
     Return (None, Some (Errorf ''"map" function: error while mapping %d index (%v): %v''
       [ANat 1, AVal (VBool True), AErr (TypeError ''*'' (VBool True))]))\<close>
    by simp
  from first second third show ?thesis
    by simp
qed

subsection \<open>\<open>filter\<close>\<close>

lemma filter_loop_ok:
  assumes rt: "Compile E (exprString E expr) = Inr ex"
  shows "(\<forall>j<length xs. \<exists>s. Resolve E ex (iterMachine (xs ! j) (i + j)) = Inr (Literal s) \<and> BoolValue E s = (keep j, None)) \<Longrightarrow>
    filter_loop E expr xs i result = Return (Inr (result @ map (\<lambda>j. xs ! j) (filter keep [0..<length xs])))"
proof (induction xs arbitrary: i result keep)
  case Nil
  then show ?case by simp
next
  case (Cons x xs)
  from Cons.prems obtain s where first: "Resolve E ex (iterMachine x i) = Inr (Literal s)" "BoolValue E s = (keep 0, None)"
    by fastforce
  from Cons.prems have rest: "\<forall>j<length xs. \<exists>s. Resolve E ex (iterMachine (xs ! j) (Suc i + j)) = Inr (Literal s) \<and>
      BoolValue E s = ((keep \<circ> Suc) j, None)"
    by fastforce
  have "filter_loop E expr (x # xs) i result = filter_loop E expr xs (Suc i) (if keep 0 then result @ [x] else result)"
    by (simp add: rt first Static_def)
  also have "\<dots> = Return (Inr ((if keep 0 then result @ [x] else result) @ map (\<lambda>j. xs ! j) (filter (keep \<circ> Suc) [0..<length xs])))"
    using rest by (rule Cons.IH)
  also have "\<dots> = Return (Inr (result @ map (\<lambda>j. (x # xs) ! j) (filter keep [0..<length (x # xs)])))"
    by (simp add: upt_0_Suc filter_map comp_def del: upt_Suc)
  finally show ?case .
qed

lemma filter_loop_skip:
  assumes rt: "Compile E (exprString E expr) = Inr ex"
  shows "k \<le> length xs \<Longrightarrow>
    (\<forall>j<k. \<exists>s kp. Resolve E ex (iterMachine (xs ! j) (i + j)) = Inr (Literal s) \<and> BoolValue E s = (kp, None)) \<Longrightarrow>
    \<exists>result'. filter_loop E expr xs i result = filter_loop E expr (drop k xs) (i + k) result'"
proof (induction xs arbitrary: i k result)
  case Nil
  then show ?case by simp
next
  case (Cons x xs)
  show ?case
  proof (cases k)
    case 0
    show ?thesis unfolding 0 by (rule exI [of _ result]) simp
  next
    case (Suc k')
    with Cons.prems obtain s kp where first: "Resolve E ex (iterMachine x i) = Inr (Literal s)" "BoolValue E s = (kp, None)"
      by fastforce
    from Suc Cons.prems have "k' \<le> length xs"
      and "\<forall>j<k'. \<exists>s kp. Resolve E ex (iterMachine (xs ! j) (Suc i + j)) = Inr (Literal s) \<and> BoolValue E s = (kp, None)"
      by fastforce+
    then obtain result' where
      "filter_loop E expr xs (Suc i) (if kp then result @ [x] else result) = filter_loop E expr (drop k' xs) (Suc i + k') result'"
      using Cons.IH by blast
    with Suc first show ?thesis
      by (auto simp add: rt Static_def)
  qed
qed

lemma filter_loop_unresolved:
  assumes rt: "Compile E (exprString E expr) = Inr ex"
    and k: "k < length xs"
    and before: "\<forall>j<k. \<exists>s kp. Resolve E ex (iterMachine (xs ! j) j) = Inr (Literal s) \<and> BoolValue E s = (kp, None)"
    and at_k: "Resolve E ex (iterMachine (xs ! k) k) = Inr v" "Static v = None"
  shows \<open>filter_loop E expr xs 0 [] =
    Return (Inl (Errorf ''"filter" function: could not resolve filter for %d index (%v): %s'' [ANat k, AVal (xs ! k), AExpr v]))\<close>
proof -
  from k before obtain result' where "filter_loop E expr xs 0 [] = filter_loop E expr (drop k xs) (0 + k) result'"
    using filter_loop_skip [OF rt, of k xs 0 "[]"] by auto
  moreover have "drop k xs = xs ! k # drop (Suc k) xs"
    using k by (simp add: Cons_nth_drop_Suc)
  ultimately show ?thesis
    using at_k by (simp add: rt)
qed

lemma filter_loop_not_bool:
  assumes rt: "Compile E (exprString E expr) = Inr ex"
    and k: "k < length xs"
    and before: "\<forall>j<k. \<exists>s kp. Resolve E ex (iterMachine (xs ! j) j) = Inr (Literal s) \<and> BoolValue E s = (kp, None)"
    and at_k: "Resolve E ex (iterMachine (xs ! k) k) = Inr (Literal s)" "BoolValue E s = (bb, Some err)"
  shows \<open>filter_loop E expr xs 0 [] =
    Return (Inl (Errorf ''"filter" function: could not resolve filter for %d index (%v) as boolean: %s''
      [ANat k, AVal (xs ! k), AErr err]))\<close>
proof -
  from k before obtain result' where "filter_loop E expr xs 0 [] = filter_loop E expr (drop k xs) (0 + k) result'"
    using filter_loop_skip [OF rt, of k xs 0 "[]"] by auto
  moreover have "drop k xs = xs ! k # drop (Suc k) xs"
    using k by (simp add: Cons_nth_drop_Suc)
  ultimately show ?thesis
    using at_k by (simp add: rt Static_def)
qed

lemma std_filter_loop:
  "Compile E (fst (StringValue E b)) = Inr expr \<Longrightarrow>
   std_filter E [VSlice xs, b] =
     (case filter_loop E expr xs 0 [] of
        Panic \<Rightarrow> Panic
      | Return (Inl err) \<Rightarrow> Return (None, Some err)
      | Return (Inr result) \<Rightarrow> Return (Some (Literal (VSlice result)), None))"
  by (simp add: std_filter_def SliceValue_def NewValue_def split: outcome.splits sum.splits)

text \<open>
  Claim C5, as stated: \<open>filter\<close> returns an error whenever the predicate of an element
  resolves to a value that is not a boolean. It does not: the handler asks \<open>BoolValue\<close>
  for the boolean reading of the value, and a value of another kind that has one, as
  the string \<open>true\<close> has, is accepted.
\<close>

theorem filter_non_boolean_counterexample:
  "Resolve refEngine (VariableRef ''_.value'') (iterMachine (VString ''true'') 0) = Inr (Literal (VString ''true'')) \<and>
   BoolValue refEngine (VString ''true'') = (True, None) \<and>
   std_filter refEngine [VSlice [VString ''true'', VString ''false''], VString ''_.value''] =
     Return (Some (Literal (VSlice [VString ''true''])), None)"
  by code_simp

text \<open>
  Claim C5, amended. For a sequence \<open>xs\<close> and a predicate that compiles, \<open>filter\<close> keeps,
  in order, exactly the elements whose predicate resolves to a static value that
  \<open>BoolValue\<close> reads as true (\<open>BoolValue\<close> of a boolean is that boolean). It returns an
  error at the first element whose predicate is still symbolic after resolution
  (\<open>Static()\<close> is nil: the result is not a literal) or resolves to a static value for
  which \<open>BoolValue\<close> fails. With the small engine,
  \<open>filter(list(1,2,3,4), "_.value > 2")\<close> is \<open>[3,4]\<close>.
\<close>

theorem filter_keeps_true_elements:
  \<open>(Compile E (fst (StringValue E b)) = Inr expr \<and> Compile E (exprString E expr) = Inr ex \<and>
    (\<forall>j<length xs. \<exists>s. Resolve E ex (iterMachine (xs ! j) j) = Inr (Literal s) \<and> BoolValue E s = (keep j, None)) \<longrightarrow>
      std_filter E [VSlice xs, b] =
        Return (Some (Literal (VSlice (map (\<lambda>j. xs ! j) (filter keep [0..<length xs])))), None)) \<and>
   (Compile E (fst (StringValue E b)) = Inr expr \<and> Compile E (exprString E expr) = Inr ex \<and> k < length xs \<and>
    (\<forall>j<k. \<exists>s kp. Resolve E ex (iterMachine (xs ! j) j) = Inr (Literal s) \<and> BoolValue E s = (kp, None)) \<and>
    Resolve E ex (iterMachine (xs ! k) k) = Inr v \<and> Static v = None \<longrightarrow>
      std_filter E [VSlice xs, b] =
        Return (None, Some (Errorf ''"filter" function: could not resolve filter for %d index (%v): %s''
          [ANat k, AVal (xs ! k), AExpr v]))) \<and>
   (Compile E (fst (StringValue E b)) = Inr expr \<and> Compile E (exprString E expr) = Inr ex \<and> k < length xs \<and>
    (\<forall>j<k. \<exists>s kp. Resolve E ex (iterMachine (xs ! j) j) = Inr (Literal s) \<and> BoolValue E s = (kp, None)) \<and>
    Resolve E ex (iterMachine (xs ! k) k) = Inr (Literal s) \<and> BoolValue E s = (bb, Some err) \<longrightarrow>
      std_filter E [VSlice xs, b] =
        Return (None, Some (Errorf ''"filter" function: could not resolve filter for %d index (%v) as boolean: %s''
          [ANat k, AVal (xs ! k), AErr err]))) \<and>
   BoolValue E (VBool t) = (t, None) \<and>
   (Static v = None \<longleftrightarrow> (\<forall>s. v \<noteq> Literal s)) \<and>
   std_filter refEngine [VSlice [VInt 1, VInt 2, VInt 3, VInt 4], VString ''_.value > 2''] =
     Return (Some (Literal (VSlice [VInt 3, VInt 4])), None)\<close>
proof -
  have kept: "std_filter E [VSlice xs, b] =
        Return (Some (Literal (VSlice (map (\<lambda>j. xs ! j) (filter keep [0..<length xs])))), None)"
    if "Compile E (fst (StringValue E b)) = Inr expr" "Compile E (exprString E expr) = Inr ex"
      "\<forall>j<length xs. \<exists>s. Resolve E ex (iterMachine (xs ! j) j) = Inr (Literal s) \<and> BoolValue E s = (keep j, None)"
    using that filter_loop_ok [of E expr ex xs 0 keep "[]"] by (simp add: std_filter_loop)
  have symbolic: \<open>std_filter E [VSlice xs, b] =
        Return (None, Some (Errorf ''"filter" function: could not resolve filter for %d index (%v): %s''
          [ANat k, AVal (xs ! k), AExpr v]))\<close>
    if "Compile E (fst (StringValue E b)) = Inr expr" "Compile E (exprString E expr) = Inr ex" "k < length xs"
      "\<forall>j<k. \<exists>s kp. Resolve E ex (iterMachine (xs ! j) j) = Inr (Literal s) \<and> BoolValue E s = (kp, None)"
      "Resolve E ex (iterMachine (xs ! k) k) = Inr v" "Static v = None"
    using that filter_loop_unresolved [of E expr ex k xs v] by (simp add: std_filter_loop)
  have not_bool: \<open>std_filter E [VSlice xs, b] =
        Return (None, Some (Errorf ''"filter" function: could not resolve filter for %d index (%v) as boolean: %s''
          [ANat k, AVal (xs ! k), AErr err]))\<close>
    if "Compile E (fst (StringValue E b)) = Inr expr" "Compile E (exprString E expr) = Inr ex" "k < length xs"
      "\<forall>j<k. \<exists>s kp. Resolve E ex (iterMachine (xs ! j) j) = Inr (Literal s) \<and> BoolValue E s = (kp, None)"
      "Resolve E ex (iterMachine (xs ! k) k) = Inr (Literal s)" "BoolValue E s = (bb, Some err)"
    using that filter_loop_not_bool [of E expr ex k xs s bb err] by (simp add: std_filter_loop)
  have bool: "BoolValue E (VBool t) = (t, None)"
    by (simp add: BoolValue_def)
  have static: "Static v = None \<longleftrightarrow> (\<forall>s. v \<noteq> Literal s)"
    by (cases v) (simp_all add: Static_def)
  have example: "std_filter refEngine [VSlice [VInt 1, VInt 2, VInt 3, VInt 4], VString ''_.value > 2''] =
     Return (Some (Literal (VSlice [VInt 3, VInt 4])), None)"
    by code_simp
  from kept symbolic not_bool bool static example show ?thesis
    by blast
qed

theorem filter_keeps_true_elements_witness:
  \<open>std_filter refEngine [VSlice [VInt 1, VInt 3], VString ''_.value > 2''] =
     Return (Some (Literal (VSlice [VInt 3])), None) \<and>
   std_filter refEngine [VSlice [VInt 1, VInt 3], VString ''later''] =
     Return (None, Some (Errorf ''"filter" function: could not resolve filter for %d index (%v): %s''
       [ANat 0, AVal (VInt 1), AExpr (VariableRef ''later'')])) \<and>
   std_filter refEngine [VSlice [VInt 1, VInt 3], VString ''_.value''] =
     Return (None, Some (Errorf ''"filter" function: could not resolve filter for %d index (%v) as boolean: %s''
       [ANat 0, AVal (VInt 1), AErr (TypeError ''bool'' (VInt 1))]))\<close>
proof -
  define gt where "gt = Call ''>'' [VariableRef ''_.value'', Literal (VInt 2)]"
  define keep where "keep = (\<lambda>j::nat. j \<noteq> 0)"
  have c: "Compile refEngine (fst (StringValue refEngine (VString ''_.value > 2''))) = Inr gt"
    "Compile refEngine (exprString refEngine gt) = Inr gt"
    "Compile refEngine (fst (StringValue refEngine (VString ''later''))) = Inr (VariableRef ''later'')"
    "Compile refEngine (exprString refEngine (VariableRef ''later'')) = Inr (VariableRef ''later'')"
    "Compile refEngine (fst (StringValue refEngine (VString ''_.value''))) = Inr (VariableRef ''_.value'')"
    "Compile refEngine (exprString refEngine (VariableRef ''_.value'')) = Inr (VariableRef ''_.value'')"
    unfolding gt_def by code_simp+
  have r0: "Resolve refEngine gt (iterMachine (VInt 1) 0) = Inr (Literal (VBool False))"
    and r1: "Resolve refEngine gt (iterMachine (VInt 3) (Suc 0)) = Inr (Literal (VBool True))"
    and r2: "Resolve refEngine (VariableRef ''later'') (iterMachine (VInt 1) 0) = Inr (VariableRef ''later'')"
    and r3: "Resolve refEngine (VariableRef ''_.value'') (iterMachine (VInt 1) 0) = Inr (Literal (VInt 1))"
    unfolding gt_def by code_simp+
  have b: "BoolValue refEngine (VInt 1) = (False, Some (TypeError ''bool'' (VInt 1)))"
    by code_simp
  have all: "\<forall>j<length [VInt 1, VInt 3]. \<exists>s. Resolve refEngine gt (iterMachine ([VInt 1, VInt 3] ! j) j) = Inr (Literal s) \<and>
      BoolValue refEngine s = (keep j, None)"
    by (simp add: less_Suc_eq keep_def r0 r1 BoolValue_def)
  have at_0: "(0::nat) < length [VInt 1, VInt 3]" "Static (VariableRef ''later'') = None"
    by (simp_all add: Static_def)
  from filter_keeps_true_elements [of refEngine "VString ''_.value > 2''" gt gt "[VInt 1, VInt 3]" keep] c all
  have first: "std_filter refEngine [VSlice [VInt 1, VInt 3], VString ''_.value > 2''] =
     Return (Some (Literal (VSlice [VInt 3])), None)"
    by (simp add: keep_def)
  from filter_keeps_true_elements [of refEngine "VString ''later''" "VariableRef ''later''" "VariableRef ''later''"
      "[VInt 1, VInt 3]" _ 0 "VariableRef ''later''"] c r2 at_0
  have second: \<open>std_filter refEngine [VSlice [VInt 1, VInt 3], VString ''later''] =
     Return (None, Some (Errorf ''"filter" function: could not resolve filter for %d index (%v): %s''
       [ANat 0, AVal (VInt 1), AExpr (VariableRef ''later'')]))\<close>
    by simp
  from filter_keeps_true_elements [of refEngine "VString ''_.value''" "VariableRef ''_.value''" "VariableRef ''_.value''"
      "[VInt 1, VInt 3]" _ 0 _ "VInt 1" False "TypeError ''bool'' (VInt 1)"] c r3 b at_0
  have third: \<open>std_filter refEngine [VSlice [VInt 1, VInt 3], VString ''_.value''] =
     Return (None, Some (Errorf ''"filter" function: could not resolve filter for %d index (%v) as boolean: %s''
       [ANat 0, AVal (VInt 1), AErr (TypeError ''bool'' (VInt 1))]))\<close>
    by simp
  from first second third show ?thesis
    by simp
qed

subsection \<open>\<open>jq\<close>\<close>

lemma jq_loop_values: "jq_loop (map Inr vs) acc = Inr (acc @ vs)"
  by (induction vs arbitrary: acc) simp_all

lemma jq_loop_error: "jq_loop (map Inr vs @ Inl err # rest) acc = Inl err"
  by (induction vs arbitrary: acc) simp_all

text \<open>
  Claim C7. \<open>jq\<close> parses its second argument as a query and fails when it does not
  parse; it marshals its first argument and reads it back as a plain value, failing when
  it does not marshal; it runs the query on that value under a context whose timeout is
  \<open>10 * time.Second\<close>, ten seconds, and returns the sequence of all the values the
  evaluation emits, in order; it fails, with the error wrapped, at the first error the
  evaluation emits. The evaluator reports a runtime error and the passing of the
  deadline alike, as an emitted error, so both end the call with an error.
\<close>

theorem jq_runs_bounded_query:
  \<open>(gojqParse E (fst (StringValue E q)) = Inl err \<longrightarrow>
      std_jq E [a, q] =
        Return (None, Some (Errorf ''"jq" error: could not parse the query: %s: %v''
          [AStr (fst (StringValue E q)), AErr err]))) \<and>
   (gojqParse E (fst (StringValue E q)) = Inr query \<and> jsonMarshal E a = Inl err \<longrightarrow>
      std_jq E [a, q] =
        Return (None, Some (Errorf ''"jq" error: could not marshal the value: %v: %v'' [AVal a, AErr err]))) \<and>
   (gojqParse E (fst (StringValue E q)) = Inr query \<and> jsonMarshal E a = Inr bytes \<and>
    gojqRunWithContext E 10000000000 query (case jsonUnmarshal E bytes of Inl e \<Rightarrow> VNone | Inr v \<Rightarrow> v) =
      map Inr vs \<longrightarrow>
      std_jq E [a, q] = Return (Some (Literal (VSlice vs)), None)) \<and>
   (gojqParse E (fst (StringValue E q)) = Inr query \<and> jsonMarshal E a = Inr bytes \<and>
    gojqRunWithContext E 10000000000 query (case jsonUnmarshal E bytes of Inl e \<Rightarrow> VNone | Inr v \<Rightarrow> v) =
      map Inr vs @ Inl err # rest \<longrightarrow>
      std_jq E [a, q] = Return (None, Some (Wrap err ''"jq" error: executing: %v''))) \<and>
   10 * Second = 10000000000\<close>
  by (simp add: std_jq_def Second_def jq_loop_values jq_loop_error NewValue_def)

theorem jq_runs_bounded_query_witness:
  \<open>std_jq jqEngine [VInt 7, VString ''.a['']  =
     Return (None, Some (Errorf ''"jq" error: could not parse the query: %s: %v'' [AStr ''.a['', AErr (LibError ''gojq'')])) \<and>
   std_jq jqEngine [VBool True, VString ''.''] =
     Return (None, Some (Errorf ''"jq" error: could not marshal the value: %v: %v''
       [AVal (VBool True), AErr (LibError ''json'')])) \<and>
   std_jq jqEngine [VInt 7, VString ''.''] = Return (Some (Literal (VSlice [VInt 7])), None) \<and>
   std_jq jqEngine [VInt 7, VString ''., error''] =
     Return (None, Some (Wrap (LibError ''gojq'') ''"jq" error: executing: %v''))\<close>
proof -
  have p: "gojqParse jqEngine (fst (StringValue jqEngine (VString ''.a[''))) = Inl (LibError ''gojq'')"
    "gojqParse jqEngine (fst (StringValue jqEngine (VString ''.''))) = Inr ''.''"
    "gojqParse jqEngine (fst (StringValue jqEngine (VString ''., error''))) = Inr ''., error''"
    by (simp_all add: jqEngine_def StringValue_def toString_def)
  have m: "jsonMarshal jqEngine (VBool True) = Inl (LibError ''json'')"
    "jsonMarshal jqEngine (VInt 7) = Inr ''7''"
  proof -
    have "decInt64 7 = ''7''" by code_simp
    then show "jsonMarshal jqEngine (VInt 7) = Inr ''7''" by (simp add: jqEngine_def)
  qed (simp add: jqEngine_def)
  have r: "gojqRunWithContext jqEngine 10000000000 ''.''
        (case jsonUnmarshal jqEngine ''7'' of Inl e \<Rightarrow> VNone | Inr v \<Rightarrow> v) = map Inr [VInt 7]"
    "gojqRunWithContext jqEngine 10000000000 ''., error''
        (case jsonUnmarshal jqEngine ''7'' of Inl e \<Rightarrow> VNone | Inr v \<Rightarrow> v) =
       map Inr [VInt 7] @ Inl (LibError ''gojq'') # []"
  proof -
    have "list_all isDigit ''7''" "readNat ''7'' = 7" by code_simp+
    then have u: "jsonUnmarshal jqEngine ''7'' = Inr (VInt 7)" by (simp add: jqEngine_def)
    show "gojqRunWithContext jqEngine 10000000000 ''.''
        (case jsonUnmarshal jqEngine ''7'' of Inl e \<Rightarrow> VNone | Inr v \<Rightarrow> v) = map Inr [VInt 7]"
      "gojqRunWithContext jqEngine 10000000000 ''., error''
        (case jsonUnmarshal jqEngine ''7'' of Inl e \<Rightarrow> VNone | Inr v \<Rightarrow> v) =
       map Inr [VInt 7] @ Inl (LibError ''gojq'') # []"
      by (simp_all add: u) (simp_all add: jqEngine_def)
  qed
  from jq_runs_bounded_query [of jqEngine "VString ''.a[''" "LibError ''gojq''" "VInt 7"] p
  have first: \<open>std_jq jqEngine [VInt 7, VString ''.a['']  =
     Return (None, Some (Errorf ''"jq" error: could not parse the query: %s: %v'' [AStr ''.a['', AErr (LibError ''gojq'')]))\<close>
    by (simp add: StringValue_def toString_def)
  from jq_runs_bounded_query [of jqEngine "VString ''.''" "LibError ''json''" "VBool True" "''.''"] p m
  have second: \<open>std_jq jqEngine [VBool True, VString ''.''] =
     Return (None, Some (Errorf ''"jq" error: could not marshal the value: %v: %v''
       [AVal (VBool True), AErr (LibError ''json'')]))\<close>
    by simp
  from jq_runs_bounded_query [of jqEngine "VString ''.''" _ "VInt 7" "''.''" "''7''" "[VInt 7]"] p m r
  have third: "std_jq jqEngine [VInt 7, VString ''.''] = Return (Some (Literal (VSlice [VInt 7])), None)"
    by simp
  from jq_runs_bounded_query [of jqEngine "VString ''., error''" "LibError ''gojq''" "VInt 7" "''., error''" "''7''" "[VInt 7]" "[]"] p m r
  have fourth: \<open>std_jq jqEngine [VInt 7, VString ''., error''] =
     Return (None, Some (Wrap (LibError ''gojq'') ''"jq" error: executing: %v''))\<close>
    by simp
  from first second third fourth show ?thesis
    by simp
qed

end
